theory Spec2Isabelle
  imports Complex_Main "HOL-Library.AList"
begin

section \<open>Python values, exceptions and built-ins\<close>

text \<open>
  The tools of \<^verbatim>\<open>tools/content_tools.py\<close> exchange JSON-like Python values: the
  response dictionaries, the entries of \<^verbatim>\<open>text_runs\<close>, the outline read by
  \<^verbatim>\<open>json.load\<close>. A dictionary is an association list in insertion order with
  distinct keys.
\<close>

datatype pyval =
    PNone
  | PBool bool
  | PInt int
  | PStr string
  | PList "pyval list"
  | PDict "(string \<times> pyval) list"

text \<open>
  An exception is a value; \<open>str_exn\<close> is Python's \<^verbatim>\<open>str(e)\<close>. A \<open>KeyError\<close>
  carries the \<^verbatim>\<open>repr\<close> of its key, which is what \<^verbatim>\<open>str\<close> prints for it.
  \<open>LibraryError\<close> stands for every exception class of a collaborator (python-pptx,
  Pillow, the completion client, the operating system). All of them are subclasses of
  \<^verbatim>\<open>Exception\<close>, which is what the handlers of the source catch. The messages of the
  built-in exceptions are those of CPython 3.11 and later.
\<close>

datatype exn =
    IndexError string
  | KeyError string
  | TypeError string
  | AttributeError string
  | LibraryError string

fun str_exn :: "exn \<Rightarrow> string" where
  "str_exn (IndexError m) = m"
| "str_exn (KeyError k) = k"
| "str_exn (TypeError m) = m"
| "str_exn (AttributeError m) = m"
| "str_exn (LibraryError m) = m"

definition digit_char :: "nat \<Rightarrow> char" where
  "digit_char d = ''0123456789'' ! d"

fun nat_digits :: "nat \<Rightarrow> string" where
  "nat_digits n = (if n < 10 then [digit_char n] else nat_digits (n div 10) @ [digit_char (n mod 10)])"

declare nat_digits.simps [simp del]

definition str_int :: "int \<Rightarrow> string" where
  "str_int i = (if i < 0 then CHR ''-'' # nat_digits (nat (- i)) else nat_digits (nat i))"

definition repr_str :: "string \<Rightarrow> string" where
  "repr_str s = [CHR 0x27] @ s @ [CHR 0x27]"

text \<open>
  A string is kept as its UTF-8 bytes; Python counts and indexes it by code point.
  \<open>utf8_chars\<close> cuts the bytes into code points: a byte \<open>10xxxxxx\<close> continues the code
  point of the byte before it.
\<close>

definition is_continuation :: "char \<Rightarrow> bool" where
  "is_continuation c = (128 \<le> (of_char c :: nat) \<and> (of_char c :: nat) < 192)"

fun utf8_chars :: "string \<Rightarrow> string list" where
  "utf8_chars [] = []"
| "utf8_chars (c # cs) =
     (case utf8_chars cs of
        [] \<Rightarrow> [[c]]
      | g # gs \<Rightarrow>
          (case g of
             [] \<Rightarrow> [c] # gs
           | d # ds \<Rightarrow> if is_continuation d then (c # g) # gs else [c] # g # gs))"

text \<open>\<^verbatim>\<open>len(v)\<close>.\<close>

fun py_len :: "pyval \<Rightarrow> exn + int" where
  "py_len (PStr s) = Inr (int (length (utf8_chars s)))"
| "py_len (PList xs) = Inr (int (length xs))"
| "py_len (PDict kvs) = Inr (int (length kvs))"
| "py_len PNone = Inl (TypeError (''object of type '' @ repr_str ''NoneType'' @ '' has no len()''))"
| "py_len (PBool b) = Inl (TypeError (''object of type '' @ repr_str ''bool'' @ '' has no len()''))"
| "py_len (PInt i) = Inl (TypeError (''object of type '' @ repr_str ''int'' @ '' has no len()''))"

text \<open>\<^verbatim>\<open>xs[i]\<close> on a list: a negative index counts from the end.\<close>

definition list_getitem :: "'a list \<Rightarrow> int \<Rightarrow> exn + 'a" where
  "list_getitem xs i =
     (if 0 \<le> i \<and> i < int (length xs) then Inr (xs ! nat i)
      else if i < 0 \<and> - int (length xs) \<le> i then Inr (xs ! nat (int (length xs) + i))
      else Inl (IndexError ''list index out of range''))"

text \<open>\<^verbatim>\<open>v[k]\<close> with a string key and \<^verbatim>\<open>v[i]\<close> with an integer index.\<close>

fun py_getitem_str :: "pyval \<Rightarrow> string \<Rightarrow> exn + pyval" where
  "py_getitem_str (PDict kvs) k =
     (case map_of kvs k of None \<Rightarrow> Inl (KeyError (repr_str k)) | Some v \<Rightarrow> Inr v)"
| "py_getitem_str (PList xs) k = Inl (TypeError ''list indices must be integers or slices, not str'')"
| "py_getitem_str (PStr s) k =
     Inl (TypeError (''string indices must be integers, not '' @ repr_str ''str''))"
| "py_getitem_str PNone k = Inl (TypeError (repr_str ''NoneType'' @ '' object is not subscriptable''))"
| "py_getitem_str (PBool b) k = Inl (TypeError (repr_str ''bool'' @ '' object is not subscriptable''))"
| "py_getitem_str (PInt i) k = Inl (TypeError (repr_str ''int'' @ '' object is not subscriptable''))"

fun py_getitem_int :: "pyval \<Rightarrow> int \<Rightarrow> exn + pyval" where
  "py_getitem_int (PList xs) i = list_getitem xs i"
| "py_getitem_int (PStr s) i =
     (case list_getitem (utf8_chars s) i of
        Inl e \<Rightarrow> Inl (IndexError ''string index out of range'')
      | Inr g \<Rightarrow> Inr (PStr g))"
| "py_getitem_int (PDict kvs) i = Inl (KeyError (str_int i))"
| "py_getitem_int PNone i = Inl (TypeError (repr_str ''NoneType'' @ '' object is not subscriptable''))"
| "py_getitem_int (PBool b) i = Inl (TypeError (repr_str ''bool'' @ '' object is not subscriptable''))"
| "py_getitem_int (PInt j) i = Inl (TypeError (repr_str ''int'' @ '' object is not subscriptable''))"

text \<open>Truthiness, as \<^verbatim>\<open>if v:\<close> tests it.\<close>

fun py_truthy :: "pyval \<Rightarrow> bool" where
  "py_truthy PNone = False"
| "py_truthy (PBool b) = b"
| "py_truthy (PInt i) = (i \<noteq> 0)"
| "py_truthy (PStr s) = (s \<noteq> [])"
| "py_truthy (PList xs) = (xs \<noteq> [])"
| "py_truthy (PDict kvs) = (kvs \<noteq> [])"

text \<open>
  \<^verbatim>\<open>s.strip()\<close> removes the leading and trailing white space of Python's \<^verbatim>\<open>str\<close>:
  the code points 9-13, 28-32, U+0085, U+00A0, U+1680, U+2000-U+200A, U+2028, U+2029, U+202F,
  U+205F and U+3000, here by their UTF-8 bytes.
\<close>

definition white_space :: "string list" where
  "white_space =
     [[CHR 0x09], [CHR 0x0A], [CHR 0x0B], [CHR 0x0C], [CHR 0x0D],
      [CHR 0x1C], [CHR 0x1D], [CHR 0x1E], [CHR 0x1F], [CHR 0x20],
      [CHR 0xC2, CHR 0x85], [CHR 0xC2, CHR 0xA0], [CHR 0xE1, CHR 0x9A, CHR 0x80],
      [CHR 0xE2, CHR 0x80, CHR 0x80], [CHR 0xE2, CHR 0x80, CHR 0x81], [CHR 0xE2, CHR 0x80, CHR 0x82],
      [CHR 0xE2, CHR 0x80, CHR 0x83], [CHR 0xE2, CHR 0x80, CHR 0x84], [CHR 0xE2, CHR 0x80, CHR 0x85],
      [CHR 0xE2, CHR 0x80, CHR 0x86], [CHR 0xE2, CHR 0x80, CHR 0x87], [CHR 0xE2, CHR 0x80, CHR 0x88],
      [CHR 0xE2, CHR 0x80, CHR 0x89], [CHR 0xE2, CHR 0x80, CHR 0x8A], [CHR 0xE2, CHR 0x80, CHR 0xA8],
      [CHR 0xE2, CHR 0x80, CHR 0xA9], [CHR 0xE2, CHR 0x80, CHR 0xAF], [CHR 0xE2, CHR 0x81, CHR 0x9F],
      [CHR 0xE3, CHR 0x80, CHR 0x80]]"

definition is_space :: "string \<Rightarrow> bool" where
  "is_space g = (g \<in> set white_space)"

definition py_strip :: "string \<Rightarrow> string" where
  "py_strip s = concat (rev (dropWhile is_space (rev (dropWhile is_space (utf8_chars s)))))"

section \<open>The presentation object model\<close>

text \<open>
  The part of the python-pptx object model the tools read and write. A font attribute of a
  run is \<open>None\<close> until it is assigned. A shape without a \<^verbatim>\<open>text_frame\<close> attribute
  (a picture, a graphic frame) has \<open>text_frame = None\<close>; \<open>ph_idx\<close> is the \<^verbatim>\<open>idx\<close> of a
  placeholder shape.
\<close>

record run =
  r_text :: string
  r_bold :: "pyval option"
  r_italic :: "pyval option"
  r_underline :: "pyval option"
  r_size :: "pyval option"
  r_name :: "pyval option"
  r_color :: "pyval option"
  r_hyperlink :: "pyval option"

record para =
  p_runs :: "run list"
  p_font_size :: "int option"
  p_font_name :: "string option"

record shape =
  ph_idx :: "int option"
  text_frame :: "para list option"
  sh_left :: "int option"
  sh_top :: "int option"
  sh_width :: "int option"
  sh_height :: "int option"
  sh_content :: pyval

record slide =
  shapes :: "shape list"
  background :: "pyval option"

record presentation =
  slide_layouts :: "string option list"
  slides :: "slide list"

definition empty_run :: run where
  "empty_run = \<lparr>r_text = [], r_bold = None, r_italic = None, r_underline = None, r_size = None,
     r_name = None, r_color = None, r_hyperlink = None\<rparr>"

definition empty_paragraph :: para where
  "empty_paragraph = \<lparr>p_runs = [], p_font_size = None, p_font_name = None\<rparr>"

text \<open>A new paragraph holding one run with the given text, or no run for the empty text.\<close>

definition paragraph_of_line :: "string \<Rightarrow> para" where
  "paragraph_of_line l = empty_paragraph\<lparr>p_runs := (if l = [] then [] else [empty_run\<lparr>r_text := l\<rparr>])\<rparr>"

section \<open>generate\_content\_from\_outline\<close>

text \<open>
  The collaborators of the workflow: the constructor of the completion client, reading and
  parsing the outline file, opening the template, one completion request (the \<open>k\<close>-th of
  the run, for a model name and the two values the prompt is built from: the section and the
  shape's position and size; the answer is the \<^verbatim>\<open>message.content\<close> of each choice),
  the assignment \<^verbatim>\<open>shape.text_frame.text = s\<close> (the paragraphs python-pptx builds from
  \<open>s\<close>, or the exception it raises), the two font assignments on one paragraph (the
  exception they raise, if any), and saving the document.
\<close>

type_synonym shape_info = "(int option \<times> int option) \<times> (int option \<times> int option)"

record gen_env =
  new_client :: "string \<Rightarrow> string \<Rightarrow> exn option"
  load_outline :: "string \<Rightarrow> exn + pyval"
  open_presentation :: "string \<Rightarrow> exn + presentation"
  create_completion :: "nat \<Rightarrow> string \<Rightarrow> pyval \<Rightarrow> shape_info \<Rightarrow> exn + string option list"
  write_text :: "string \<Rightarrow> exn + para list"
  assign_font :: "para \<Rightarrow> exn option"
  save_presentation :: "presentation \<Rightarrow> string \<Rightarrow> exn option"

text \<open>One entry of the request log: the slide position, the section sent and the shape's geometry.\<close>

type_synonym request = "nat \<times> pyval \<times> shape_info"

record gen_outcome =
  g_result :: pyval
  g_saved :: "(string \<times> presentation) option"
  g_requests :: "request list"

text \<open>
  Lines 535-536:
  \<^verbatim>\<open>section_index = min(slide_index // 5, len(outline["sections"]) - 1)\<close>,
  \<^verbatim>\<open>current_section = outline["sections"][section_index]\<close>.
\<close>

definition section_for :: "pyval \<Rightarrow> int \<Rightarrow> exn + pyval" where
  "section_for outline slide_index =
     (case py_getitem_str outline ''sections'' of
        Inl e \<Rightarrow> Inl e
      | Inr secs \<Rightarrow>
          (case py_len secs of
             Inl e \<Rightarrow> Inl e
           | Inr n \<Rightarrow>
               (let section_index = min (slide_index div 5) (n - 1)
                in py_getitem_int secs section_index)))"

definition shape_info_of :: "shape \<Rightarrow> shape_info" where
  "shape_info_of sh = ((sh_left sh, sh_top sh), (sh_width sh, sh_height sh))"

definition apply_style :: "para \<Rightarrow> para" where
  "apply_style p = p\<lparr>p_font_size := Some 18, p_font_name := Some ''Microsoft YaHei''\<rparr>"

text \<open>
  Lines 573-575, \<^verbatim>\<open>for paragraph in shape.text_frame.paragraphs\<close>: the size and the name
  of the font are assigned, paragraph by paragraph.
\<close>

fun style_paragraphs :: "gen_env \<Rightarrow> para list \<Rightarrow> exn + para list" where
  "style_paragraphs env [] = Inr []"
| "style_paragraphs env (p # ps) =
     (case assign_font env p of
        Some e \<Rightarrow> Inl e
      | None \<Rightarrow>
          (case style_paragraphs env ps of
             Inl e \<Rightarrow> Inl e
           | Inr ps' \<Rightarrow> Inr (apply_style p # ps')))"

text \<open>Lines 540-575, the body of the loop over the shapes of one slide.\<close>

definition generate_shape ::
  "gen_env \<Rightarrow> string \<Rightarrow> nat \<Rightarrow> pyval \<Rightarrow> request list \<Rightarrow> shape \<Rightarrow> request list \<times> (exn + shape)" where
  "generate_shape env model_name slide_index current_section reqs sh =
     (case text_frame sh of
        None \<Rightarrow> (reqs, Inr sh)
      | Some tf \<Rightarrow>
          (let info = shape_info_of sh;
               reqs' = reqs @ [(slide_index, current_section, info)]
           in case create_completion env (length reqs) model_name current_section info of
                Inl e \<Rightarrow> (reqs', Inl e)
              | Inr choices \<Rightarrow>
                  (case list_getitem choices 0 of
                     Inl e \<Rightarrow> (reqs', Inl e)
                   | Inr None \<Rightarrow>
                       (reqs', Inl (AttributeError (repr_str ''NoneType'' @ '' object has no attribute '' @ repr_str ''strip'')))
                   | Inr (Some content) \<Rightarrow>
                       (case write_text env (py_strip content) of
                          Inl e \<Rightarrow> (reqs', Inl e)
                        | Inr ps \<Rightarrow>
                            (case style_paragraphs env ps of
                               Inl e \<Rightarrow> (reqs', Inl e)
                             | Inr ps' \<Rightarrow> (reqs', Inr (sh\<lparr>text_frame := Some ps'\<rparr>)))))))"

fun generate_shapes ::
  "gen_env \<Rightarrow> string \<Rightarrow> nat \<Rightarrow> pyval \<Rightarrow> request list \<Rightarrow> shape list \<Rightarrow> request list \<times> (exn + shape list)" where
  "generate_shapes env model_name slide_index current_section reqs [] = (reqs, Inr [])"
| "generate_shapes env model_name slide_index current_section reqs (sh # shs) =
     (case generate_shape env model_name slide_index current_section reqs sh of
        (reqs', Inl e) \<Rightarrow> (reqs', Inl e)
      | (reqs', Inr sh') \<Rightarrow>
          (case generate_shapes env model_name slide_index current_section reqs' shs of
             (reqs'', Inl e) \<Rightarrow> (reqs'', Inl e)
           | (reqs'', Inr shs') \<Rightarrow> (reqs'', Inr (sh' # shs'))))"

text \<open>Lines 533-575, \<^verbatim>\<open>for slide_index, slide in enumerate(prs.slides)\<close>.\<close>

fun generate_slides ::
  "gen_env \<Rightarrow> string \<Rightarrow> pyval \<Rightarrow> nat \<Rightarrow> request list \<Rightarrow> slide list \<Rightarrow> request list \<times> (exn + slide list)" where
  "generate_slides env model_name outline slide_index reqs [] = (reqs, Inr [])"
| "generate_slides env model_name outline slide_index reqs (sl # sls) =
     (case section_for outline (int slide_index) of
        Inl e \<Rightarrow> (reqs, Inl e)
      | Inr current_section \<Rightarrow>
          (case generate_shapes env model_name slide_index current_section reqs (shapes sl) of
             (reqs', Inl e) \<Rightarrow> (reqs', Inl e)
           | (reqs', Inr shs') \<Rightarrow>
               (case generate_slides env model_name outline (Suc slide_index) reqs' sls of
                  (reqs'', Inl e) \<Rightarrow> (reqs'', Inl e)
                | (reqs'', Inr sls') \<Rightarrow> (reqs'', Inr (sl\<lparr>shapes := shs'\<rparr> # sls')))))"

definition success_message :: string where
  "success_message = [CHR 0x50, CHR 0x50, CHR 0x54, CHR 0xE5, CHR 0x86, CHR 0x85, CHR 0xE5, CHR 0xAE,
     CHR 0xB9, CHR 0xE7, CHR 0x94, CHR 0x9F, CHR 0xE6, CHR 0x88, CHR 0x90, CHR 0xE6, CHR 0x88, CHR 0x90,
     CHR 0xE5, CHR 0x8A, CHR 0x9F]"

definition gen_success :: "string \<Rightarrow> pyval" where
  "gen_success output_path =
     PDict [(''success'', PBool True), (''message'', PStr success_message),
            (''output_path'', PStr output_path)]"

definition gen_failure :: "exn \<Rightarrow> pyval" where
  "gen_failure e = PDict [(''success'', PBool False), (''error'', PStr (str_exn e))]"

definition failed :: "exn \<Rightarrow> request list \<Rightarrow> gen_outcome" where
  "failed e reqs = \<lparr>g_result = gen_failure e, g_saved = None, g_requests = reqs\<rparr>"

text \<open>Lines 521-591: the whole body is one \<^verbatim>\<open>try\<close> with one \<^verbatim>\<open>except Exception\<close>.\<close>

definition generate_content_from_outline ::
  "gen_env \<Rightarrow> string \<Rightarrow> string \<Rightarrow> string \<Rightarrow> string \<Rightarrow> string \<Rightarrow> string \<Rightarrow> gen_outcome" where
  "generate_content_from_outline env template_path outline_path output_path api_key base_url model_name =
     (case new_client env api_key base_url of
        Some e \<Rightarrow> failed e []
      | None \<Rightarrow>
          (case load_outline env outline_path of
             Inl e \<Rightarrow> failed e []
           | Inr outline \<Rightarrow>
               (case open_presentation env template_path of
                  Inl e \<Rightarrow> failed e []
                | Inr prs \<Rightarrow>
                    (case generate_slides env model_name outline 0 [] (slides prs) of
                       (reqs, Inl e) \<Rightarrow> failed e reqs
                     | (reqs, Inr sls) \<Rightarrow>
                         (let prs' = prs\<lparr>slides := sls\<rparr>
                          in case save_presentation env prs' output_path of
                               Some e \<Rightarrow> failed e reqs
                             | None \<Rightarrow>
                                 \<lparr>g_result = gen_success output_path,
                                  g_saved = Some (output_path, prs'),
                                  g_requests = reqs\<rparr>)))))"

section \<open>The tool layer\<close>

text \<open>
  \<^verbatim>\<open>register_content_tools\<close> closes its six tools over the registry
  \<^verbatim>\<open>presentations\<close>, the callback \<^verbatim>\<open>get_current_presentation_id\<close> and the
  validation helpers it receives as arguments; the tools call the module \<^verbatim>\<open>utils\<close>
  (\<^verbatim>\<open>ppt_utils\<close>), \<^verbatim>\<open>base64\<close>, \<^verbatim>\<open>tempfile\<close> and \<^verbatim>\<open>os\<close>. None of these
  is defined in \<^verbatim>\<open>content_tools.py\<close>, so each is a field of the record \<open>collab\<close> and
  every statement below holds for all of them. An operation that mutates its argument
  returns the mutated object together with the exception it raised, if any.
\<close>

datatype event =
    UtilCall string
  | FileExists string
  | FileWrite string
  | FileDelete string

type_synonym py_dict = "(string \<times> pyval) list"
type_synonym file_system = "string \<rightharpoonup> string"
type_synonym box = "real \<times> real \<times> real \<times> real"

record text_format =
  f_font_size :: "int option"
  f_font_name :: "string option"
  f_bold :: "bool option"
  f_italic :: "bool option"
  f_underline :: "bool option"
  f_color :: "int list option"
  f_bg_color :: "int list option"
  f_alignment :: "string option"
  f_vertical_alignment :: "string option"

record enhancement =
  brightness :: real
  contrast :: real
  saturation :: real
  sharpness :: real
  blur_radius :: real
  filter_type :: "string option"

record collab =
  u_add_slide :: "presentation \<Rightarrow> int \<Rightarrow> exn + (slide \<times> string option)"
  u_set_title :: "slide \<Rightarrow> string \<Rightarrow> slide \<times> exn option"
  u_set_slide_gradient_background :: "slide \<Rightarrow> int list \<Rightarrow> int list \<Rightarrow> string \<Rightarrow> slide \<times> exn option"
  u_create_professional_gradient_background ::
    "slide \<Rightarrow> string \<Rightarrow> string \<Rightarrow> string \<Rightarrow> slide \<times> exn option"
  u_get_slide_info :: "slide \<Rightarrow> int \<Rightarrow> exn + pyval"
  u_populate_placeholder :: "slide \<Rightarrow> int \<Rightarrow> string \<Rightarrow> slide \<times> exn option"
  u_add_bullet_points :: "shape \<Rightarrow> string list \<Rightarrow> shape \<times> exn option"
  u_add_textbox :: "slide \<Rightarrow> box \<Rightarrow> string \<Rightarrow> text_format \<Rightarrow> bool \<Rightarrow> slide \<times> exn option"
  u_format_text_advanced :: "shape \<Rightarrow> text_format \<Rightarrow> shape \<times> exn option"
  u_validate_text_fit :: "shape \<Rightarrow> string option \<Rightarrow> int \<Rightarrow> exn + py_dict"
  u_validate_and_fix_slide :: "slide \<Rightarrow> bool \<Rightarrow> int \<Rightarrow> int \<Rightarrow> slide \<times> (exn + py_dict)"
  u_add_image ::
    "file_system \<Rightarrow> slide \<Rightarrow> string \<Rightarrow> real \<Rightarrow> real \<Rightarrow> real option \<Rightarrow> real option \<Rightarrow> slide \<times> exn option"
  u_apply_professional_image_enhancement ::
    "file_system \<Rightarrow> string \<Rightarrow> string \<Rightarrow> string option \<Rightarrow> file_system \<times> (exn + string)"
  u_enhance_image_with_pillow ::
    "file_system \<Rightarrow> string \<Rightarrow> enhancement \<Rightarrow> string option \<Rightarrow> file_system \<times> (exn + string)"
  validate_parameters :: "(string \<times> pyval \<times> ((pyval \<Rightarrow> bool) \<times> string) list) list \<Rightarrow> bool \<times> string"
  is_positive :: "pyval \<Rightarrow> bool"
  is_valid_rgb :: "pyval \<Rightarrow> bool"
  b64decode :: "string \<Rightarrow> exn + string"
  named_temporary_file :: "file_system \<Rightarrow> exn + string"
  unlink :: "file_system \<Rightarrow> string \<Rightarrow> exn option"
  font_assign :: "string \<Rightarrow> pyval \<Rightarrow> exn option"
  text_assign :: "pyval \<Rightarrow> exn"

text \<open>
  The state the tools act on: the registry, the identifier the callback returns, the files
  and a log of the delegated calls and file operations made so far.
\<close>

record tool_state =
  presentations :: "string \<rightharpoonup> presentation"
  current_id :: "string option"
  files :: file_system
  log :: "event list"

text \<open>What a \<^verbatim>\<open>try\<close> block works on: the resolved presentation, the files, the log.\<close>

record ctx =
  c_pres :: presentation
  c_files :: file_system
  c_log :: "event list"

definition error_dict :: "string \<Rightarrow> pyval" where
  "error_dict m = PDict [(''error'', PStr m)]"

definition no_presentation :: pyval where
  "no_presentation = error_dict ''No presentation is currently loaded or the specified ID is invalid''"

text \<open>
  \<^verbatim>\<open>pres_id = presentation_id if presentation_id is not None else get_current_presentation_id()\<close>
  and \<^verbatim>\<open>if pres_id is None or pres_id not in presentations\<close>.
\<close>

definition resolve_presentation :: "tool_state \<Rightarrow> string option \<Rightarrow> (string \<times> presentation) option" where
  "resolve_presentation st presentation_id =
     (case (case presentation_id of Some p \<Rightarrow> Some p | None \<Rightarrow> current_id st) of
        None \<Rightarrow> None
      | Some pres_id \<Rightarrow>
          (case presentations st pres_id of None \<Rightarrow> None | Some pres \<Rightarrow> Some (pres_id, pres)))"

definition bad_slide_index :: "int \<Rightarrow> presentation \<Rightarrow> bool" where
  "bad_slide_index slide_index pres = (slide_index < 0 \<or> slide_index \<ge> int (length (slides pres)))"

definition invalid_slide_index :: "int \<Rightarrow> presentation \<Rightarrow> pyval" where
  "invalid_slide_index slide_index pres =
     error_dict (''Invalid slide index: '' @ str_int slide_index @ ''. Available slides: 0-''
       @ str_int (int (length (slides pres)) - 1))"

definition enter :: "tool_state \<Rightarrow> presentation \<Rightarrow> ctx" where
  "enter st pres = \<lparr>c_pres = pres, c_files = files st, c_log = log st\<rparr>"

definition leave :: "tool_state \<Rightarrow> string \<Rightarrow> ctx \<Rightarrow> tool_state" where
  "leave st pres_id c =
     st\<lparr>presentations := (presentations st)(pres_id \<mapsto> c_pres c), files := c_files c, log := c_log c\<rparr>"

text \<open>
  The outcome of a tool is \<open>Inr\<close> the dictionary it returns, or \<open>Inl\<close> an exception that
  leaves the tool and reaches its caller. A \<^verbatim>\<open>try\<close> block ends with a returned value or
  with a raised exception, and the handler
  \<^verbatim>\<open>except Exception as e: return {"error": f"Failed to ...: {str(e)}"}\<close> turns the
  exception into a returned value.
\<close>

definition try_except :: "string \<Rightarrow> exn + pyval \<Rightarrow> exn + pyval" where
  "try_except what r =
     (case r of
        Inl e \<Rightarrow> Inr (error_dict (''Failed to '' @ what @ '': '' @ str_exn e))
      | Inr v \<Rightarrow> Inr v)"

definition finish ::
  "tool_state \<Rightarrow> string \<Rightarrow> string \<Rightarrow> ctx \<times> (exn + pyval) \<Rightarrow> (exn + pyval) \<times> tool_state" where
  "finish st pres_id what out = (try_except what (snd out), leave st pres_id (fst out))"

definition logged :: "event \<Rightarrow> ctx \<Rightarrow> ctx" where
  "logged ev c = c\<lparr>c_log := c_log c @ [ev]\<rparr>"

definition put_slide :: "nat \<Rightarrow> slide \<Rightarrow> ctx \<Rightarrow> ctx" where
  "put_slide i sl c = c\<lparr>c_pres := (c_pres c)\<lparr>slides := (slides (c_pres c))[i := sl]\<rparr>\<rparr>"

definition get_slide :: "ctx \<Rightarrow> nat \<Rightarrow> slide" where
  "get_slide c i = slides (c_pres c) ! i"

text \<open>A delegated call on the slide at position \<open>i\<close>, and on the shape at position \<open>j\<close> of it.\<close>

definition on_slide :: "nat \<Rightarrow> string \<Rightarrow> (slide \<Rightarrow> slide \<times> 'r) \<Rightarrow> ctx \<Rightarrow> ctx \<times> 'r" where
  "on_slide i name f c =
     (case f (get_slide c i) of (sl', r) \<Rightarrow> (put_slide i sl' (logged (UtilCall name) c), r))"

definition put_shape :: "nat \<Rightarrow> nat \<Rightarrow> shape \<Rightarrow> ctx \<Rightarrow> ctx" where
  "put_shape i j sh c = put_slide i ((get_slide c i)\<lparr>shapes := (shapes (get_slide c i))[j := sh]\<rparr>) c"

definition on_shape :: "nat \<Rightarrow> nat \<Rightarrow> string \<Rightarrow> (shape \<Rightarrow> shape \<times> 'r) \<Rightarrow> ctx \<Rightarrow> ctx \<times> 'r" where
  "on_shape i j name f c =
     (case f (shapes (get_slide c i) ! j) of (sh', r) \<Rightarrow> (put_shape i j sh' (logged (UtilCall name) c), r))"

definition raised :: "ctx \<times> exn option \<Rightarrow> pyval \<Rightarrow> ctx \<times> (exn + pyval)" where
  "raised out v = (case snd out of Some e \<Rightarrow> (fst out, Inl e) | None \<Rightarrow> (fst out, Inr v))"

subsection \<open>add\_slide\<close>

text \<open>
  Lines 47-70. \<^verbatim>\<open>ppt_utils.add_slide\<close> answers with the slide it created and the layout
  (its name, if it has one); the slide is the new last element of \<^verbatim>\<open>pres.slides\<close>.
\<close>

definition apply_background ::
  "collab \<Rightarrow> nat \<Rightarrow> string option \<Rightarrow> int list list option \<Rightarrow> string \<Rightarrow> string \<Rightarrow> ctx \<Rightarrow> ctx \<times> exn option" where
  "apply_background D slide_index background_type background_colors gradient_direction color_scheme c =
     (if background_type = Some ''gradient'' \<and> background_colors \<noteq> None \<and> the background_colors \<noteq> []
         \<and> length (the background_colors) \<ge> 2
      then on_slide slide_index ''set_slide_gradient_background''
             (\<lambda>sl. u_set_slide_gradient_background D sl (the background_colors ! 0)
                      (the background_colors ! 1) gradient_direction) c
      else if background_type = Some ''professional_gradient''
      then on_slide slide_index ''create_professional_gradient_background''
             (\<lambda>sl. u_create_professional_gradient_background D sl color_scheme ''subtle'' gradient_direction) c
      else (c, None))"

definition add_slide_try ::
  "collab \<Rightarrow> int \<Rightarrow> string option \<Rightarrow> string option \<Rightarrow> int list list option \<Rightarrow> string \<Rightarrow> string \<Rightarrow> ctx
     \<Rightarrow> ctx \<times> (exn + pyval)" where
  "add_slide_try D layout_index title background_type background_colors gradient_direction color_scheme c =
     (case u_add_slide D (c_pres c) layout_index of
        Inl e \<Rightarrow> (logged (UtilCall ''add_slide'') c, Inl e)
      | Inr (sl, layout) \<Rightarrow>
          (let c1 = (logged (UtilCall ''add_slide'') c)
                      \<lparr>c_pres := (c_pres c)\<lparr>slides := slides (c_pres c) @ [sl]\<rparr>\<rparr>;
               slide_index = length (slides (c_pres c1)) - 1
           in case (if title \<noteq> None \<and> title \<noteq> Some []
                    then on_slide slide_index ''set_title'' (\<lambda>s. u_set_title D s (the title)) c1
                    else (c1, None)) of
                (c2, Some e) \<Rightarrow> (c2, Inl e)
              | (c2, None) \<Rightarrow>
                  raised (apply_background D slide_index background_type background_colors
                            gradient_direction color_scheme c2)
                    (PDict [(''message'', PStr (''Added slide '' @ str_int (int slide_index)
                               @ '' with layout '' @ str_int layout_index)),
                            (''slide_index'', PInt (int slide_index)),
                            (''layout_name'', PStr (case layout of Some n \<Rightarrow> n
                               | None \<Rightarrow> ''Layout '' @ str_int layout_index))])))"

definition add_slide ::
  "collab \<Rightarrow> tool_state \<Rightarrow> int \<Rightarrow> string option \<Rightarrow> string option \<Rightarrow> int list list option \<Rightarrow> string
     \<Rightarrow> string \<Rightarrow> string option \<Rightarrow> (exn + pyval) \<times> tool_state" where
  "add_slide D st layout_index title background_type background_colors gradient_direction color_scheme
       presentation_id =
     (case resolve_presentation st presentation_id of
        None \<Rightarrow> (Inr no_presentation, st)
      | Some (pres_id, pres) \<Rightarrow>
          if layout_index < 0 \<or> layout_index \<ge> int (length (slide_layouts pres))
          then (Inr (error_dict (''Invalid layout index: '' @ str_int layout_index
                  @ ''. Available layouts: 0-'' @ str_int (int (length (slide_layouts pres)) - 1))), st)
          else finish st pres_id ''add slide''
                 (add_slide_try D layout_index title background_type background_colors gradient_direction
                    color_scheme (enter st pres)))"

subsection \<open>get\_slide\_info, populate\_placeholder, add\_bullet\_points\<close>

definition get_slide_info_try :: "collab \<Rightarrow> int \<Rightarrow> ctx \<Rightarrow> ctx \<times> (exn + pyval)" where
  "get_slide_info_try D slide_index c =
     (logged (UtilCall ''get_slide_info'') c, u_get_slide_info D (get_slide c (nat slide_index)) slide_index)"

definition get_slide_info :: "collab \<Rightarrow> tool_state \<Rightarrow> int \<Rightarrow> string option \<Rightarrow> (exn + pyval) \<times> tool_state" where
  "get_slide_info D st slide_index presentation_id =
     (case resolve_presentation st presentation_id of
        None \<Rightarrow> (Inr no_presentation, st)
      | Some (pres_id, pres) \<Rightarrow>
          if bad_slide_index slide_index pres then (Inr (invalid_slide_index slide_index pres), st)
          else finish st pres_id ''get slide info'' (get_slide_info_try D slide_index (enter st pres)))"

definition populate_placeholder_try :: "collab \<Rightarrow> int \<Rightarrow> int \<Rightarrow> string \<Rightarrow> ctx \<Rightarrow> ctx \<times> (exn + pyval)" where
  "populate_placeholder_try D slide_index placeholder_idx text c =
     raised (on_slide (nat slide_index) ''populate_placeholder''
               (\<lambda>sl. u_populate_placeholder D sl placeholder_idx text) c)
       (PDict [(''message'', PStr (''Populated placeholder '' @ str_int placeholder_idx @ '' on slide ''
                  @ str_int slide_index))])"

definition populate_placeholder ::
  "collab \<Rightarrow> tool_state \<Rightarrow> int \<Rightarrow> int \<Rightarrow> string \<Rightarrow> string option \<Rightarrow> (exn + pyval) \<times> tool_state" where
  "populate_placeholder D st slide_index placeholder_idx text presentation_id =
     (case resolve_presentation st presentation_id of
        None \<Rightarrow> (Inr no_presentation, st)
      | Some (pres_id, pres) \<Rightarrow>
          if bad_slide_index slide_index pres then (Inr (invalid_slide_index slide_index pres), st)
          else finish st pres_id ''populate placeholder''
                 (populate_placeholder_try D slide_index placeholder_idx text (enter st pres)))"

text \<open>
  \<^verbatim>\<open>slide.placeholders[idx]\<close> is the placeholder shape whose \<^verbatim>\<open>idx\<close> is the key; the
  result is its position among the shapes.
\<close>

fun find_placeholder :: "shape list \<Rightarrow> int \<Rightarrow> nat option" where
  "find_placeholder [] idx = None"
| "find_placeholder (sh # shs) idx =
     (if ph_idx sh = Some idx then Some 0 else map_option Suc (find_placeholder shs idx))"

definition placeholders_getitem :: "slide \<Rightarrow> int \<Rightarrow> exn + nat" where
  "placeholders_getitem sl idx =
     (case find_placeholder (shapes sl) idx of
        None \<Rightarrow> Inl (KeyError (repr_str (''no placeholder on this slide with idx == '' @ str_int idx)))
      | Some j \<Rightarrow> Inr j)"

definition add_bullet_points_try :: "collab \<Rightarrow> int \<Rightarrow> int \<Rightarrow> string list \<Rightarrow> ctx \<Rightarrow> ctx \<times> (exn + pyval)" where
  "add_bullet_points_try D slide_index placeholder_idx bullet_points c =
     (case placeholders_getitem (get_slide c (nat slide_index)) placeholder_idx of
        Inl e \<Rightarrow> (c, Inl e)
      | Inr j \<Rightarrow>
          raised (on_shape (nat slide_index) j ''add_bullet_points''
                    (\<lambda>sh. u_add_bullet_points D sh bullet_points) c)
            (PDict [(''message'', PStr (''Added '' @ str_int (int (length bullet_points))
                       @ '' bullet points to placeholder '' @ str_int placeholder_idx @ '' on slide ''
                       @ str_int slide_index))]))"

definition add_bullet_points ::
  "collab \<Rightarrow> tool_state \<Rightarrow> int \<Rightarrow> int \<Rightarrow> string list \<Rightarrow> string option \<Rightarrow> (exn + pyval) \<times> tool_state" where
  "add_bullet_points D st slide_index placeholder_idx bullet_points presentation_id =
     (case resolve_presentation st presentation_id of
        None \<Rightarrow> (Inr no_presentation, st)
      | Some (pres_id, pres) \<Rightarrow>
          if bad_slide_index slide_index pres then (Inr (invalid_slide_index slide_index pres), st)
          else finish st pres_id ''add bullet points''
                 (add_bullet_points_try D slide_index placeholder_idx bullet_points (enter st pres)))"

subsection \<open>manage\_text\<close>

record text_args =
  t_box :: box
  t_text :: string
  t_shape_index :: "int option"
  t_text_runs :: "py_dict list option"
  t_format :: text_format
  t_auto_fit :: bool
  t_validation_only :: bool
  t_min_font_size :: int
  t_max_font_size :: int

text \<open>Lines 217-223: the dictionary \<^verbatim>\<open>validations\<close>.\<close>

definition text_validations ::
  "collab \<Rightarrow> text_format \<Rightarrow> (string \<times> pyval \<times> ((pyval \<Rightarrow> bool) \<times> string) list) list" where
  "text_validations D f =
     (case f_font_size f of None \<Rightarrow> []
      | Some n \<Rightarrow> [(''font_size'', PInt n, [(is_positive D, ''must be a positive integer'')])])
     @ (case f_color f of None \<Rightarrow> []
        | Some c \<Rightarrow> [(''color'', PList (map PInt c),
             [(is_valid_rgb D, ''must be a valid RGB list [R, G, B] with values 0-255'')])])
     @ (case f_bg_color f of None \<Rightarrow> []
        | Some c \<Rightarrow> [(''bg_color'', PList (map PInt c),
             [(is_valid_rgb D, ''must be a valid RGB list [R, G, B] with values 0-255'')])])"

text \<open>\<^verbatim>\<open>tuple(color) if color else None\<close>.\<close>

definition tuple_or_none :: "int list option \<Rightarrow> int list option" where
  "tuple_or_none color = (case color of None \<Rightarrow> None | Some c \<Rightarrow> if c = [] then None else Some c)"

definition passed_format :: "text_format \<Rightarrow> text_format" where
  "passed_format f = f\<lparr>f_color := tuple_or_none (f_color f), f_bg_color := tuple_or_none (f_bg_color f)\<rparr>"

definition bad_shape_index :: "int option \<Rightarrow> slide \<Rightarrow> bool" where
  "bad_shape_index shape_index sl =
     (case shape_index of None \<Rightarrow> True | Some j \<Rightarrow> j < 0 \<or> j \<ge> int (length (shapes sl)))"

definition str_opt_int :: "int option \<Rightarrow> string" where
  "str_opt_int v = (case v of None \<Rightarrow> ''None'' | Some i \<Rightarrow> str_int i)"

definition invalid_shape_index :: "string \<Rightarrow> int option \<Rightarrow> slide \<Rightarrow> pyval" where
  "invalid_shape_index what shape_index sl =
     error_dict (''Invalid shape index for '' @ what @ '': '' @ str_opt_int shape_index
       @ ''. Available shapes: 0-'' @ str_int (int (length (shapes sl)) - 1))"

text \<open>\<^verbatim>\<open>d.update(e)\<close>.\<close>

definition dict_update :: "py_dict \<Rightarrow> py_dict \<Rightarrow> py_dict" where
  "dict_update d e = fold (\<lambda>kv. AList.update (fst kv) (snd kv)) e d"

text \<open>Lines 276-299, \<^verbatim>\<open>operation == "validate"\<close>.\<close>

definition validate_text :: "collab \<Rightarrow> int \<Rightarrow> text_args \<Rightarrow> ctx \<Rightarrow> ctx \<times> (exn + pyval)" where
  "validate_text D slide_index a c =
     (let i = nat slide_index
      in if bad_shape_index (t_shape_index a) (get_slide c i)
         then (c, Inr (invalid_shape_index ''validation'' (t_shape_index a) (get_slide c i)))
         else
           (let j = nat (the (t_shape_index a));
                c1 = logged (UtilCall ''validate_text_fit'') c
            in case u_validate_text_fit D (shapes (get_slide c i) ! j)
                      (if t_text a = [] then None else Some (t_text a))
                      (case f_font_size (t_format a) of None \<Rightarrow> 12
                       | Some n \<Rightarrow> if n = 0 then 12 else n) of
                 Inl e \<Rightarrow> (c1, Inl e)
               | Inr validation_result \<Rightarrow>
                   if \<not> t_validation_only a
                      \<and> (case map_of validation_result ''needs_optimization'' of
                            None \<Rightarrow> False | Some v \<Rightarrow> py_truthy v)
                   then (case on_slide i ''validate_and_fix_slide''
                                (\<lambda>sl. u_validate_and_fix_slide D sl True (t_min_font_size a)
                                         (t_max_font_size a)) c1 of
                           (c2, Inl e) \<Rightarrow> (c2, Inl e)
                         | (c2, Inr fix_result) \<Rightarrow>
                             (c2, Inr (PDict (dict_update validation_result fix_result))))
                   else (c1, Inr (PDict validation_result))))"

text \<open>
  \<^verbatim>\<open>text_frame.clear()\<close> removes every paragraph but the first and empties that one; the
  frame it leaves has exactly one paragraph.
\<close>

definition clear_text_frame :: "para list \<Rightarrow> exn + para list" where
  "clear_text_frame tf =
     (case tf of [] \<Rightarrow> Inl (IndexError ''tuple index out of range'') | p # ps \<Rightarrow> Inr [p\<lparr>p_runs := []\<rparr>])"

text \<open>
  Lines 341-354: \<^verbatim>\<open>if key in run_data: run.font.attr = run_data[key]\<close>; an assignment
  the library rejects raises, and the later ones are not reached.
\<close>

definition set_if_present ::
  "collab \<Rightarrow> py_dict \<Rightarrow> string \<Rightarrow> (pyval \<Rightarrow> run \<Rightarrow> run) \<Rightarrow> run \<times> exn option \<Rightarrow> run \<times> exn option" where
  "set_if_present D run_data key upd s =
     (case snd s of
        Some e \<Rightarrow> s
      | None \<Rightarrow>
          (case map_of run_data key of
             None \<Rightarrow> s
           | Some v \<Rightarrow>
               (case font_assign D key v of
                  Some e \<Rightarrow> (fst s, Some e)
                | None \<Rightarrow> (upd v (fst s), None))))"

definition format_font :: "collab \<Rightarrow> py_dict \<Rightarrow> run \<times> exn option \<Rightarrow> run \<times> exn option" where
  "format_font D run_data s0 =
     (let s1 = set_if_present D run_data ''bold'' (\<lambda>v r. r\<lparr>r_bold := Some v\<rparr>) s0;
          s2 = set_if_present D run_data ''italic'' (\<lambda>v r. r\<lparr>r_italic := Some v\<rparr>) s1;
          s3 = set_if_present D run_data ''underline'' (\<lambda>v r. r\<lparr>r_underline := Some v\<rparr>) s2;
          s4 = set_if_present D run_data ''font_size'' (\<lambda>v r. r\<lparr>r_size := Some v\<rparr>) s3;
          s5 = set_if_present D run_data ''font_name'' (\<lambda>v r. r\<lparr>r_name := Some v\<rparr>) s4;
          s6 = (if map_of run_data ''color'' \<noteq> None \<and> is_valid_rgb D (the (map_of run_data ''color''))
                then set_if_present D run_data ''color'' (\<lambda>v r. r\<lparr>r_color := Some v\<rparr>) s5
                else s5)
      in set_if_present D run_data ''hyperlink'' (\<lambda>v r. r\<lparr>r_hyperlink := Some v\<rparr>) s6)"

text \<open>
  Lines 327-354 for one entry that has a \<^verbatim>\<open>text\<close>: choose the paragraph, add a run, set
  its text, format it. The frame returned is the frame as mutated up to the fault, if any.
\<close>

definition format_run :: "collab \<Rightarrow> py_dict \<Rightarrow> pyval \<Rightarrow> para list \<Rightarrow> para list \<times> exn option" where
  "format_run D run_data t tf =
     (if tf = [] then (tf, Some (IndexError ''tuple index out of range''))
      else
        (case (case t of PStr s \<Rightarrow> format_font D run_data (empty_run\<lparr>r_text := s\<rparr>, None)
               | _ \<Rightarrow> (empty_run, Some (text_assign D t))) of
           (r, fault) \<Rightarrow> (tf @ [empty_paragraph\<lparr>p_runs := [r]\<rparr>], fault)))"

definition formatted_entry :: "py_dict \<Rightarrow> pyval \<Rightarrow> pyval" where
  "formatted_entry run_data t =
     PDict [(''text'', t), (''formatting_applied'', PDict (filter (\<lambda>kv. fst kv \<noteq> ''text'') run_data))]"

text \<open>Lines 323-359, \<^verbatim>\<open>for run_data in text_runs\<close>.\<close>

fun format_runs_loop :: "collab \<Rightarrow> py_dict list \<Rightarrow> para list \<Rightarrow> pyval list \<Rightarrow> para list \<times> (exn + pyval list)" where
  "format_runs_loop D [] tf formatted_runs = (tf, Inr formatted_runs)"
| "format_runs_loop D (run_data # rest) tf formatted_runs =
     (case map_of run_data ''text'' of
        None \<Rightarrow> format_runs_loop D rest tf formatted_runs
      | Some t \<Rightarrow>
          (case format_run D run_data t tf of
             (tf', Some e) \<Rightarrow> (tf', Inl e)
           | (tf', None) \<Rightarrow>
               format_runs_loop D rest tf' (formatted_runs @ [formatted_entry run_data t])))"

text \<open>Lines 301-366, \<^verbatim>\<open>operation == "format_runs"\<close>.\<close>

definition format_runs :: "collab \<Rightarrow> int \<Rightarrow> text_args \<Rightarrow> ctx \<Rightarrow> ctx \<times> (exn + pyval)" where
  "format_runs D slide_index a c =
     (let i = nat slide_index
      in if bad_shape_index (t_shape_index a) (get_slide c i)
         then (c, Inr (invalid_shape_index ''format_runs'' (t_shape_index a) (get_slide c i)))
         else if t_text_runs a = None \<or> t_text_runs a = Some []
         then (c, Inr (error_dict ''text_runs parameter is required for format_runs operation''))
         else
           (let j = nat (the (t_shape_index a));
                sh = shapes (get_slide c i) ! j
            in case text_frame sh of
                 None \<Rightarrow> (c, Inr (error_dict ''Shape does not contain text''))
               | Some tf \<Rightarrow>
                   (case clear_text_frame tf of
                      Inl e \<Rightarrow> (c, Inl e)
                    | Inr tf0 \<Rightarrow>
                        (case format_runs_loop D (the (t_text_runs a)) tf0 [] of
                           (tf', Inl e) \<Rightarrow> (put_shape i j (sh\<lparr>text_frame := Some tf'\<rparr>) c, Inl e)
                         | (tf', Inr formatted_runs) \<Rightarrow>
                             (put_shape i j (sh\<lparr>text_frame := Some tf'\<rparr>) c,
                              Inr (PDict
                                [(''message'', PStr (''Applied formatting to ''
                                    @ str_int (int (length formatted_runs)) @ '' text runs on shape ''
                                    @ str_opt_int (t_shape_index a))),
                                 (''slide_index'', PInt slide_index),
                                 (''shape_index'', PInt (the (t_shape_index a))),
                                 (''formatted_runs'', PList formatted_runs)]))))))"

text \<open>Lines 230-371, the \<^verbatim>\<open>try\<close> block of \<^verbatim>\<open>manage_text\<close>.\<close>

definition manage_text_try :: "collab \<Rightarrow> int \<Rightarrow> string \<Rightarrow> text_args \<Rightarrow> ctx \<Rightarrow> ctx \<times> (exn + pyval)" where
  "manage_text_try D slide_index operation a c =
     (let i = nat slide_index
      in if operation = ''add''
         then (case on_slide i ''add_textbox''
                      (\<lambda>sl. u_add_textbox D sl (t_box a) (t_text a) (passed_format (t_format a))
                               (t_auto_fit a)) c of
                 (c', Some e) \<Rightarrow> (c', Inl e)
               | (c', None) \<Rightarrow>
                   (c', Inr (PDict
                      [(''message'', PStr (''Added text box to slide '' @ str_int slide_index)),
                       (''shape_index'', PInt (int (length (shapes (get_slide c' i))) - 1)),
                       (''text'', PStr (t_text a))])))
         else if operation = ''format''
         then (if bad_shape_index (t_shape_index a) (get_slide c i)
               then (c, Inr (invalid_shape_index ''formatting'' (t_shape_index a) (get_slide c i)))
               else raised (on_shape i (nat (the (t_shape_index a))) ''format_text_advanced''
                              (\<lambda>sh. u_format_text_advanced D sh (passed_format (t_format a))) c)
                      (PDict [(''message'', PStr (''Formatted text shape ''
                         @ str_opt_int (t_shape_index a) @ '' on slide '' @ str_int slide_index))]))
         else if operation = ''validate'' then validate_text D slide_index a c
         else if operation = ''format_runs'' then format_runs D slide_index a c
         else (c, Inr (error_dict (''Invalid operation: '' @ operation @ ''. Must be ''
                 @ repr_str ''add'' @ '', '' @ repr_str ''format'' @ '', '' @ repr_str ''validate''
                 @ '', or '' @ repr_str ''format_runs''))))"

definition manage_text ::
  "collab \<Rightarrow> tool_state \<Rightarrow> int \<Rightarrow> string \<Rightarrow> text_args \<Rightarrow> string option \<Rightarrow> (exn + pyval) \<times> tool_state" where
  "manage_text D st slide_index operation a presentation_id =
     (case resolve_presentation st presentation_id of
        None \<Rightarrow> (Inr no_presentation, st)
      | Some (pres_id, pres) \<Rightarrow>
          if bad_slide_index slide_index pres then (Inr (invalid_slide_index slide_index pres), st)
          else if text_validations D (t_format a) \<noteq> []
                  \<and> \<not> fst (validate_parameters D (text_validations D (t_format a)))
          then (Inr (error_dict (snd (validate_parameters D (text_validations D (t_format a))))), st)
          else finish st pres_id (operation @ '' text'')
                 (manage_text_try D slide_index operation a (enter st pres)))"

subsection \<open>manage\_image\<close>

record image_args =
  i_left :: real
  i_top :: real
  i_width :: "real option"
  i_height :: "real option"
  i_enhancement_style :: "string option"
  i_enhancement :: enhancement
  i_output_path :: "string option"

text \<open>Lines 420-435, the inner \<^verbatim>\<open>try\<close> of the base64 branch.\<close>

definition add_base64_image :: "collab \<Rightarrow> int \<Rightarrow> string \<Rightarrow> image_args \<Rightarrow> ctx \<Rightarrow> ctx \<times> (exn + pyval)" where
  "add_base64_image D slide_index image_source a c =
     (case b64decode D image_source of
        Inl e \<Rightarrow> (c, Inl e)
      | Inr image_data \<Rightarrow>
          (case named_temporary_file D (c_files c) of
             Inl e \<Rightarrow> (c, Inl e)
           | Inr temp_path \<Rightarrow>
               (let c1 = (logged (FileWrite temp_path) c)\<lparr>c_files := (c_files c)(temp_path \<mapsto> image_data)\<rparr>
                in case on_slide (nat slide_index) ''add_image''
                          (\<lambda>sl. u_add_image D (c_files c1) sl temp_path (i_left a) (i_top a)
                                   (i_width a) (i_height a)) c1 of
                     (c2, Some e) \<Rightarrow> (c2, Inl e)
                   | (c2, None) \<Rightarrow>
                       (case unlink D (c_files c2) temp_path of
                          Some e \<Rightarrow> (c2, Inl e)
                        | None \<Rightarrow>
                            ((logged (FileDelete temp_path) c2)\<lparr>c_files := (c_files c2)(temp_path := None)\<rparr>,
                             Inr (PDict
                               [(''message'',
                                 PStr (''Added image from base64 to slide '' @ str_int slide_index)),
                                (''shape_index'',
                                 PInt (int (length (shapes (get_slide c2 (nat slide_index)))) - 1))]))))))"

text \<open>Lines 416-492, the \<^verbatim>\<open>try\<close> block of \<^verbatim>\<open>manage_image\<close>.\<close>

definition manage_image_try ::
  "collab \<Rightarrow> int \<Rightarrow> string \<Rightarrow> string \<Rightarrow> string \<Rightarrow> image_args \<Rightarrow> ctx \<Rightarrow> ctx \<times> (exn + pyval)" where
  "manage_image_try D slide_index operation image_source source_type a c =
     (if operation = ''add''
      then (if source_type = ''base64''
            then (case add_base64_image D slide_index image_source a c of
                    (c', Inl e) \<Rightarrow>
                      (c', Inr (error_dict (''Failed to process base64 image: '' @ str_exn e)))
                  | (c', Inr v) \<Rightarrow> (c', Inr v))
            else if c_files c image_source = None
            then (logged (FileExists image_source) c,
                  Inr (error_dict (''Image file not found: '' @ image_source)))
            else (case on_slide (nat slide_index) ''add_image''
                         (\<lambda>sl. u_add_image D (c_files c) sl image_source (i_left a) (i_top a)
                                  (i_width a) (i_height a)) (logged (FileExists image_source) c) of
                    (c', Some e) \<Rightarrow> (c', Inl e)
                  | (c', None) \<Rightarrow>
                      (c', Inr (PDict
                         [(''message'', PStr (''Added image to slide '' @ str_int slide_index)),
                          (''shape_index'',
                           PInt (int (length (shapes (get_slide c' (nat slide_index)))) - 1)),
                          (''image_path'', PStr image_source)]))))
      else if operation = ''enhance''
      then (if source_type = ''base64''
            then (c, Inr (error_dict ''Enhancement operation requires file path, not base64 data''))
            else if c_files c image_source = None
            then (logged (FileExists image_source) c,
                  Inr (error_dict (''Image file not found: '' @ image_source)))
            else
              (let c1 = logged (FileExists image_source) c
               in case (if i_enhancement_style a = Some ''presentation''
                        then (logged (UtilCall ''apply_professional_image_enhancement'') c1,
                              u_apply_professional_image_enhancement D (c_files c) image_source
                                ''presentation'' (i_output_path a))
                        else (logged (UtilCall ''enhance_image_with_pillow'') c1,
                              u_enhance_image_with_pillow D (c_files c) image_source (i_enhancement a)
                                (i_output_path a))) of
                    (c2, (fs', Inl e)) \<Rightarrow> (c2\<lparr>c_files := fs'\<rparr>, Inl e)
                  | (c2, (fs', Inr enhanced_path)) \<Rightarrow>
                      (c2\<lparr>c_files := fs'\<rparr>,
                       Inr (PDict [(''message'', PStr (''Enhanced image: '' @ image_source)),
                                   (''enhanced_path'', PStr enhanced_path)]))))
      else (c, Inr (error_dict (''Invalid operation: '' @ operation @ ''. Must be '' @ repr_str ''add''
              @ '' or '' @ repr_str ''enhance''))))"

definition manage_image ::
  "collab \<Rightarrow> tool_state \<Rightarrow> int \<Rightarrow> string \<Rightarrow> string \<Rightarrow> string \<Rightarrow> image_args \<Rightarrow> string option
     \<Rightarrow> (exn + pyval) \<times> tool_state" where
  "manage_image D st slide_index operation image_source source_type a presentation_id =
     (case resolve_presentation st presentation_id of
        None \<Rightarrow> (Inr no_presentation, st)
      | Some (pres_id, pres) \<Rightarrow>
          if bad_slide_index slide_index pres then (Inr (invalid_slide_index slide_index pres), st)
          else finish st pres_id (operation @ '' image'')
                 (manage_image_try D slide_index operation image_source source_type a (enter st pres)))"

section \<open>Measures and sample data\<close>


text \<open>Whether \<open>m\<close> contains the text \<open>w\<close>, and whether a message names the range \<open>0-(n-1)\<close>.\<close>

fun starts_with :: "string \<Rightarrow> string \<Rightarrow> bool" where
  "starts_with [] m = True"
| "starts_with (c # w) [] = False"
| "starts_with (c # w) (d # m) = (c = d \<and> starts_with w m)"

fun contains_text :: "string \<Rightarrow> string \<Rightarrow> bool" where
  "contains_text w [] = (w = [])"
| "contains_text w (d # m) = (starts_with w (d # m) \<or> contains_text w m)"

definition names_range :: "string \<Rightarrow> nat \<Rightarrow> bool" where
  "names_range m n = contains_text (''0-'' @ str_int (int n - 1)) m"

text \<open>
  A small deck, a registry holding it and collaborators with simple behaviour, used where a
  statement is evaluated on concrete data.
\<close>

definition sample_outline :: pyval where
  "sample_outline =
     PDict [(''title'', PStr ''Q3''), (''sections'', PList [PStr ''intro'', PStr ''body'', PStr ''end''])]"

definition title_shape :: shape where
  "title_shape = \<lparr>ph_idx = Some 0,
     text_frame = Some [empty_paragraph\<lparr>p_runs := [empty_run\<lparr>r_text := ''Old title''\<rparr>]\<rparr>],
     sh_left = Some 0, sh_top = Some 0, sh_width = Some 9144000, sh_height = Some 1143000,
     sh_content = PNone\<rparr>"

definition body_shape :: shape where
  "body_shape = \<lparr>ph_idx = Some 1, text_frame = Some [empty_paragraph],
     sh_left = Some 0, sh_top = Some 1143000, sh_width = Some 9144000, sh_height = Some 4525963,
     sh_content = PNone\<rparr>"

definition picture_shape :: shape where
  "picture_shape = \<lparr>ph_idx = None, text_frame = None,
     sh_left = Some 100, sh_top = Some 100, sh_width = Some 200, sh_height = Some 200,
     sh_content = PStr ''picture''\<rparr>"

definition sample_slide :: slide where
  "sample_slide = \<lparr>shapes = [title_shape, body_shape, picture_shape], background = None\<rparr>"

definition sample_pres :: presentation where
  "sample_pres = \<lparr>slide_layouts = [Some ''Title Slide'', Some ''Title and Content''],
     slides = [sample_slide]\<rparr>"

definition sample_state :: tool_state where
  "sample_state = \<lparr>presentations = [''deck'' \<mapsto> sample_pres], current_id = Some ''deck'',
     files = Map.empty, log = []\<rparr>"

definition sample_valid_rgb :: "pyval \<Rightarrow> bool" where
  "sample_valid_rgb v =
     (case v of
        PList [PInt r, PInt g, PInt b] \<Rightarrow> 0 \<le> r \<and> r \<le> 255 \<and> 0 \<le> g \<and> g \<le> 255 \<and> 0 \<le> b \<and> b \<le> 255
      | _ \<Rightarrow> False)"

definition sample_collab :: collab where
  "sample_collab =
     \<lparr>u_add_slide = (\<lambda>pres li. Inr (\<lparr>shapes = [], background = None\<rparr>, slide_layouts pres ! nat li)),
      u_set_title = (\<lambda>sl t. (sl, None)),
      u_set_slide_gradient_background =
        (\<lambda>sl a b d. (sl\<lparr>background := Some (PList [PList (map PInt a), PList (map PInt b), PStr d])\<rparr>, None)),
      u_create_professional_gradient_background = (\<lambda>sl s t d. (sl\<lparr>background := Some (PStr s)\<rparr>, None)),
      u_get_slide_info = (\<lambda>sl i. Inr (PDict [(''slide_index'', PInt i),
         (''shape_count'', PInt (int (length (shapes sl))))])),
      u_populate_placeholder =
        (\<lambda>sl idx t. case find_placeholder (shapes sl) idx of
            None \<Rightarrow> (sl, Some (KeyError (repr_str (''no placeholder on this slide with idx == '' @ str_int idx))))
          | Some j \<Rightarrow> (sl\<lparr>shapes := (shapes sl)[j := (shapes sl ! j)\<lparr>text_frame := Some [paragraph_of_line t]\<rparr>]\<rparr>, None)),
      u_add_bullet_points = (\<lambda>sh bs. (sh\<lparr>text_frame := Some (map paragraph_of_line bs)\<rparr>, None)),
      u_add_textbox =
        (\<lambda>sl b t f af. (sl\<lparr>shapes := shapes sl @ [picture_shape\<lparr>text_frame := Some [paragraph_of_line t]\<rparr>]\<rparr>, None)),
      u_format_text_advanced = (\<lambda>sh f. (sh, None)),
      u_validate_text_fit = (\<lambda>sh t n. Inr [(''needs_optimization'', PBool False)]),
      u_validate_and_fix_slide = (\<lambda>sl a mn mx. (sl, Inr [])),
      u_add_image = (\<lambda>fs sl path l t w h. (sl\<lparr>shapes := shapes sl @ [picture_shape]\<rparr>, None)),
      u_apply_professional_image_enhancement = (\<lambda>fs src style out. (fs, Inr src)),
      u_enhance_image_with_pillow = (\<lambda>fs src e out. (fs, Inr src)),
      validate_parameters =
        (\<lambda>vs. if list_all (\<lambda>entry. list_all (\<lambda>chk. fst chk (fst (snd entry))) (snd (snd entry))) vs
              then (True, []) else (False, ''Parameter validation failed'')),
      is_positive = (\<lambda>v. case v of PInt n \<Rightarrow> 0 < n | _ \<Rightarrow> False),
      is_valid_rgb = sample_valid_rgb,
      b64decode = (\<lambda>s. Inr s),
      named_temporary_file = (\<lambda>fs. Inr ''/tmp/tmp0.png''),
      unlink = (\<lambda>fs path. None),
      font_assign = (\<lambda>k v. None),
      text_assign = (\<lambda>v. TypeError ''run text must be a string'')\<rparr>"

definition sample_env :: gen_env where
  "sample_env =
     \<lparr>new_client = (\<lambda>key url. None),
      load_outline = (\<lambda>path. Inr sample_outline),
      open_presentation = (\<lambda>path. Inr sample_pres),
      create_completion = (\<lambda>k model sec info. Inr [Some ''  Generated text  '']),
      write_text = (\<lambda>s. Inr [paragraph_of_line s]),
      assign_font = (\<lambda>p. None),
      save_presentation = (\<lambda>prs path. None)\<rparr>"

definition empty_outline_env :: gen_env where
  "empty_outline_env = sample_env\<lparr>load_outline := (\<lambda>path. Inr (PDict [(''sections'', PList [])]))\<rparr>"

definition sample_image_args :: image_args where
  "sample_image_args = \<lparr>i_left = 1, i_top = 1, i_width = None, i_height = None,
     i_enhancement_style = None,
     i_enhancement = \<lparr>brightness = 1, contrast = 1, saturation = 1, sharpness = 1, blur_radius = 0,
       filter_type = None\<rparr>,
     i_output_path = None\<rparr>"

definition sample_text_args :: text_args where
  "sample_text_args = \<lparr>t_box = (1, 1, 4, 2), t_text = [], t_shape_index = None, t_text_runs = None,
     t_format = \<lparr>f_font_size = None, f_font_name = None, f_bold = None, f_italic = None,
       f_underline = None, f_color = None, f_bg_color = None, f_alignment = None,
       f_vertical_alignment = None\<rparr>,
     t_auto_fit = True, t_validation_only = False, t_min_font_size = 8, t_max_font_size = 72\<rparr>"

text \<open>The paragraphs of the shape at position \<open>j\<close> of slide \<open>i\<close> of a registered presentation.\<close>

definition shape_paragraphs :: "tool_state \<Rightarrow> string \<Rightarrow> nat \<Rightarrow> nat \<Rightarrow> para list option" where
  "shape_paragraphs st pres_id i j =
     (case presentations st pres_id of
        None \<Rightarrow> None
      | Some pres \<Rightarrow>
          if i < length (slides pres) \<and> j < length (shapes (slides pres ! i))
          then text_frame (shapes (slides pres ! i) ! j) else None)"


definition far_shape_args :: text_args where
  "far_shape_args = sample_text_args\<lparr>t_shape_index := Some 9\<rparr>"

definition one_run_args :: text_args where
  "one_run_args = sample_text_args\<lparr>t_shape_index := Some 1,
     t_text_runs := Some [[(''text'', PStr ''Hello'')]]\<rparr>"

definition bad_color_args :: text_args where
  "bad_color_args = sample_text_args\<lparr>t_shape_index := Some 1,
     t_text_runs := Some [[(''text'', PStr ''Hi''), (''bold'', PBool True),
                           (''color'', PList [PInt 300, PInt 0, PInt 0])]]\<rparr>"

definition three_entry_args :: text_args where
  "three_entry_args = sample_text_args\<lparr>t_shape_index := Some 0,
     t_text_runs := Some [[(''text'', PStr ''A''), (''bold'', PBool True)], [(''italic'', PBool True)],
                          [(''text'', PStr ''B'')]]\<rparr>"

definition bad_font_args :: text_args where
  "bad_font_args = far_shape_args\<lparr>t_format := (t_format far_shape_args)\<lparr>f_font_size := Some (- 1)\<rparr>\<rparr>"




section \<open>The outline section of each slide\<close>

lemma section_for_nonempty:
  assumes "map_of kvs ''sections'' = Some (PList secs)" and "secs \<noteq> []"
  shows "section_for (PDict kvs) (int i) = Inr (secs ! min (i div 5) (length secs - 1))"
proof -
  have a: "int i div 5 = int (i div 5)" by (simp add: zdiv_int)
  have b: "int (length secs) - 1 = int (length secs - 1)" using assms(2) by (cases secs) simp_all
  have m: "min (int i div 5) (int (length secs) - 1) = int (min (i div 5) (length secs - 1))"
    unfolding a b by simp
  have lt: "min (i div 5) (length secs - 1) < length secs" using assms(2) by (cases secs) auto
  have "section_for (PDict kvs) (int i) = list_getitem secs (int (min (i div 5) (length secs - 1)))"
    unfolding section_for_def using assms(1) by (simp add: Let_def m)
  also have "\<dots> = Inr (secs ! min (i div 5) (length secs - 1))"
    unfolding list_getitem_def using lt by simp
  finally show ?thesis .
qed

lemma section_for_last:
  assumes "map_of kvs ''sections'' = Some (PList secs)" and "secs \<noteq> []" and "5 * length secs \<le> i"
  shows "section_for (PDict kvs) (int i) = Inr (last secs)"
proof -
  have "length secs - 1 \<le> i div 5" using assms(3) by (cases secs) auto
  then have "min (i div 5) (length secs - 1) = length secs - 1" by simp
  then show ?thesis
    using section_for_nonempty[OF assms(1,2), of i] assms(2) by (simp add: last_conv_nth)
qed

lemma generate_shape_reqs:
  assumes "generate_shape env m k sec reqs sh = (reqs', r)"
  shows "\<exists>extra. reqs' = reqs @ extra \<and> (\<forall>x\<in>set extra. fst x = k \<and> fst (snd x) = sec)"
  using assms unfolding generate_shape_def
  by (auto simp: Let_def split: option.splits sum.splits)

lemma generate_shapes_reqs:
  "generate_shapes env m k sec reqs shs = (reqs', r) \<Longrightarrow>
   \<exists>extra. reqs' = reqs @ extra \<and> (\<forall>x\<in>set extra. fst x = k \<and> fst (snd x) = sec)"
proof (induction shs arbitrary: reqs reqs' r)
  case Nil
  then show ?case by simp
next
  case (Cons sh shs)
  obtain r1 q1 where g: "generate_shape env m k sec reqs sh = (q1, r1)"
    by (cases "generate_shape env m k sec reqs sh")
  from generate_shape_reqs[OF g] obtain e1
    where e1: "q1 = reqs @ e1" "\<forall>x\<in>set e1. fst x = k \<and> fst (snd x) = sec" by blast
  show ?case
  proof (cases r1)
    case (Inl e)
    with Cons.prems g e1 show ?thesis by auto
  next
    case (Inr sh')
    obtain q2 r2 where g2: "generate_shapes env m k sec q1 shs = (q2, r2)"
      by (cases "generate_shapes env m k sec q1 shs")
    from Cons.IH[OF g2] obtain e2
      where e2: "q2 = q1 @ e2" "\<forall>x\<in>set e2. fst x = k \<and> fst (snd x) = sec" by blast
    have "reqs' = q2" using Cons.prems g g2 Inr by (auto split: sum.splits)
    then have "reqs' = reqs @ (e1 @ e2)" using e1 e2 by simp
    moreover have "\<forall>x\<in>set (e1 @ e2). fst x = k \<and> fst (snd x) = sec" using e1 e2 by auto
    ultimately show ?thesis by blast
  qed
qed

lemma generate_slides_reqs:
  assumes "\<And>k sec. section_for outline (int k) = Inr sec \<Longrightarrow> P k sec"
  shows "\<forall>x\<in>set reqs. P (fst x) (fst (snd x)) \<Longrightarrow>
   \<forall>x\<in>set (fst (generate_slides env m outline k reqs sls)). P (fst x) (fst (snd x))"
proof (induction sls arbitrary: reqs k)
  case Nil
  then show ?case by simp
next
  case (Cons sl sls)
  show ?case
  proof (cases "section_for outline (int k)")
    case (Inl e)
    then show ?thesis using Cons.prems by simp
  next
    case (Inr sec)
    obtain q1 r1 where g: "generate_shapes env m k sec reqs (shapes sl) = (q1, r1)"
      by (cases "generate_shapes env m k sec reqs (shapes sl)")
    from generate_shapes_reqs[OF g] obtain e1
      where e1: "q1 = reqs @ e1" "\<forall>x\<in>set e1. fst x = k \<and> fst (snd x) = sec" by blast
    have q1: "\<forall>x\<in>set q1. P (fst x) (fst (snd x))" using e1 Cons.prems assms[OF Inr] by auto
    show ?thesis
    proof (cases r1)
      case (Inl e)
      then show ?thesis using Inr g q1 by simp
    next
      case r: (Inr shs')
      have "fst (generate_slides env m outline k reqs (sl # sls))
              = fst (generate_slides env m outline (Suc k) q1 sls)"
        using Inr g r by (simp split: prod.splits sum.splits)
      then show ?thesis using Cons.IH[OF q1] by simp
    qed
  qed
qed

text \<open>
  Claim C1. In \<open>generate_content_from_outline\<close> the slide at 0-based position \<open>i\<close> uses
  \<open>sections[min(i // 5, len(sections) - 1)]\<close>: this is what the lookup returns for an outline
  with at least one section, it is the section of every request the loop over the slides
  issues, a slide with index at least \<open>5 * len(sections)\<close> uses the last section, and with 3
  sections the slides 0-4, 5-9 and 10-11 of 12 use sections 0, 1 and 2.
\<close>

theorem outline_section_distribution:
  assumes "map_of kvs ''sections'' = Some (PList secs)" and "secs \<noteq> []"
  shows "section_for (PDict kvs) (int i) = Inr (secs ! min (i div 5) (length secs - 1))
       \<and> (5 * length secs \<le> i \<longrightarrow> section_for (PDict kvs) (int i) = Inr (last secs))
       \<and> (\<forall>x\<in>set (fst (generate_slides env model_name (PDict kvs) 0 [] sls)).
            fst (snd x) = secs ! min (fst x div 5) (length secs - 1))
       \<and> map (\<lambda>k. section_for (PDict [(''sections'', PList [s0, s1, s2])]) (int k)) [0..<12]
            = map Inr [s0, s0, s0, s0, s0, s1, s1, s1, s1, s1, s2, s2]"
proof -
  have a: "section_for (PDict kvs) (int i) = Inr (secs ! min (i div 5) (length secs - 1))"
    by (rule section_for_nonempty[OF assms])
  have b: "5 * length secs \<le> i \<longrightarrow> section_for (PDict kvs) (int i) = Inr (last secs)"
    using section_for_last[OF assms] by blast
  have c: "\<forall>x\<in>set (fst (generate_slides env model_name (PDict kvs) 0 [] sls)).
            fst (snd x) = secs ! min (fst x div 5) (length secs - 1)"
  proof (rule generate_slides_reqs)
    fix k sec
    assume "section_for (PDict kvs) (int k) = Inr sec"
    then show "sec = secs ! min (k div 5) (length secs - 1)"
      using section_for_nonempty[OF assms, of k] by simp
  next
    show "\<forall>x\<in>set []. fst (snd x) = secs ! min (fst x div 5) (length secs - 1)" by simp
  qed
  have d: "map (\<lambda>k. section_for (PDict [(''sections'', PList [s0, s1, s2])]) (int k)) [0..<12]
            = map Inr [s0, s0, s0, s0, s0, s1, s1, s1, s1, s1, s2, s2]"
    by (simp add: section_for_def list_getitem_def upt_rec)
  show ?thesis using a b c d by blast
qed

theorem outline_section_distribution_witness:
  "section_for sample_outline 7 = Inr (PStr ''body'')
   \<and> section_for sample_outline 40 = Inr (PStr ''end'')
   \<and> map (\<lambda>x. (fst x, fst (snd x)))
        (fst (generate_slides sample_env ''m'' sample_outline 0 [] (replicate 6 sample_slide)))
      = [(0, PStr ''intro''), (0, PStr ''intro''), (1, PStr ''intro''), (1, PStr ''intro''),
         (2, PStr ''intro''), (2, PStr ''intro''), (3, PStr ''intro''), (3, PStr ''intro''),
         (4, PStr ''intro''), (4, PStr ''intro''), (5, PStr ''body''), (5, PStr ''body'')]"
proof -
  have k: "map_of [(''title'', PStr ''Q3''), (''sections'', PList [PStr ''intro'', PStr ''body'', PStr ''end''])]
             ''sections'' = Some (PList [PStr ''intro'', PStr ''body'', PStr ''end''])" by simp
  have n: "[PStr ''intro'', PStr ''body'', PStr ''end''] \<noteq> []" by simp
  note t = outline_section_distribution[OF k n]
  have a: "section_for sample_outline 7 = Inr (PStr ''body'')"
    using t[of 7] by (simp add: sample_outline_def)
  have b: "section_for sample_outline 40 = Inr (PStr ''end'')"
    using t[of 40] by (simp add: sample_outline_def)
  have c: "map (\<lambda>x. (fst x, fst (snd x)))
        (fst (generate_slides sample_env ''m'' sample_outline 0 [] (replicate 6 sample_slide)))
      = [(0, PStr ''intro''), (0, PStr ''intro''), (1, PStr ''intro''), (1, PStr ''intro''),
         (2, PStr ''intro''), (2, PStr ''intro''), (3, PStr ''intro''), (3, PStr ''intro''),
         (4, PStr ''intro''), (4, PStr ''intro''), (5, PStr ''body''), (5, PStr ''body'')]"
    by code_simp
  show ?thesis using a b c by blast
qed

section \<open>Faults of the generation workflow\<close>




text \<open>
  Claim C7. The \<open>sections\<close> list of the outline is never validated for a minimum length:
  with an empty list and a template of at least one slide the section lookup of the first
  slide raises \<open>IndexError\<close>, which the function catches and reports as its failure record
  (with an empty list and a template without slides it saves the deck); with a single
  section the lookup succeeds for every slide index.
\<close>

theorem empty_sections_fault_single_section_safe:
  "(new_client env api_key base_url = None \<longrightarrow> load_outline env outline_path = Inr (PDict kvs) \<longrightarrow>
      map_of kvs ''sections'' = Some (PList []) \<longrightarrow> open_presentation env template_path = Inr prs \<longrightarrow>
      slides prs \<noteq> [] \<longrightarrow>
      generate_content_from_outline env template_path outline_path output_path api_key base_url model_name
        = \<lparr>g_result = PDict [(''success'', PBool False), (''error'', PStr ''list index out of range'')],
           g_saved = None, g_requests = []\<rparr>)
   \<and> (new_client env api_key base_url = None \<longrightarrow> load_outline env outline_path = Inr (PDict kvs) \<longrightarrow>
      map_of kvs ''sections'' = Some (PList []) \<longrightarrow> open_presentation env template_path = Inr prs \<longrightarrow>
      slides prs = [] \<longrightarrow> save_presentation env prs output_path = None \<longrightarrow>
      g_saved (generate_content_from_outline env template_path outline_path output_path api_key base_url
                 model_name) = Some (output_path, prs))
   \<and> (map_of kvs1 ''sections'' = Some (PList [s]) \<longrightarrow> section_for (PDict kvs1) (int i) = Inr s)"
proof -
  have a: "map_of kvs ''sections'' = Some (PList []) \<Longrightarrow>
           section_for (PDict kvs) 0 = Inl (IndexError ''list index out of range'')"
    by (simp add: section_for_def list_getitem_def)
  have c1: "new_client env api_key base_url = None \<longrightarrow> load_outline env outline_path = Inr (PDict kvs) \<longrightarrow>
      map_of kvs ''sections'' = Some (PList []) \<longrightarrow> open_presentation env template_path = Inr prs \<longrightarrow>
      slides prs \<noteq> [] \<longrightarrow>
      generate_content_from_outline env template_path outline_path output_path api_key base_url model_name
        = \<lparr>g_result = PDict [(''success'', PBool False), (''error'', PStr ''list index out of range'')],
           g_saved = None, g_requests = []\<rparr>"
    using a by (cases "slides prs") (auto simp: generate_content_from_outline_def failed_def gen_failure_def)
  have c2: "new_client env api_key base_url = None \<longrightarrow> load_outline env outline_path = Inr (PDict kvs) \<longrightarrow>
      map_of kvs ''sections'' = Some (PList []) \<longrightarrow> open_presentation env template_path = Inr prs \<longrightarrow>
      slides prs = [] \<longrightarrow> save_presentation env prs output_path = None \<longrightarrow>
      g_saved (generate_content_from_outline env template_path outline_path output_path api_key base_url
                 model_name) = Some (output_path, prs)"
  proof (intro impI)
    assume h: "new_client env api_key base_url = None" "load_outline env outline_path = Inr (PDict kvs)"
      "open_presentation env template_path = Inr prs" "slides prs = []"
      "save_presentation env prs output_path = None"
    have e: "prs\<lparr>slides := []\<rparr> = prs" using h(4) by (cases prs) simp
    show "g_saved (generate_content_from_outline env template_path outline_path output_path api_key base_url
                 model_name) = Some (output_path, prs)"
      using h by (simp add: generate_content_from_outline_def e)
  qed
  have c3: "map_of kvs1 ''sections'' = Some (PList [s]) \<longrightarrow> section_for (PDict kvs1) (int i) = Inr s"
    using section_for_nonempty[of kvs1 "[s]" i] by simp
  show ?thesis using c1 c2 c3 by blast
qed

theorem empty_sections_fault_single_section_safe_witness:
  "generate_content_from_outline empty_outline_env ''t.pptx'' ''o.json'' ''out.pptx'' ''key'' ''url'' ''m''
     = \<lparr>g_result = PDict [(''success'', PBool False), (''error'', PStr ''list index out of range'')],
        g_saved = None, g_requests = []\<rparr>
   \<and> section_for (PDict [(''sections'', PList [PStr ''only''])]) 99 = Inr (PStr ''only'')"
  using empty_sections_fault_single_section_safe[of empty_outline_env "''key''" "''url''" "''o.json''"
      "[(''sections'', PList [])]" "''t.pptx''" sample_pres "''out.pptx''" "''m''"
      "[(''sections'', PList [PStr ''only''])]" "PStr ''only''" 99]
  by (simp add: empty_outline_env_def sample_env_def sample_pres_def)









section \<open>Index checks of the tools\<close>

lemma resolve_presentation_Some:
  "resolve_presentation st presentation_id = Some (pid, pres) \<Longrightarrow> presentations st pid = Some pres"
  unfolding resolve_presentation_def by (auto split: option.splits)

lemma leave_enter:
  "presentations st pid = Some pres \<Longrightarrow> leave st pid (enter st pres) = st"
  unfolding leave_def enter_def by (simp add: map_upd_triv)

lemma starts_with_append: "starts_with w (w @ q)"
  by (induction w) auto

lemma contains_text_append: "contains_text w (p @ w @ q)"
proof (induction p)
  case Nil
  show ?case by (cases "w @ q") (use starts_with_append[of w q] in auto)
next
  case (Cons c p)
  then show ?case by simp
qed

lemma invalid_slide_index_names_range:
  "names_range (''Invalid slide index: '' @ str_int i @ ''. Available slides: 0-'' @ str_int (int n - 1)) n"
proof -
  have "(''Invalid slide index: '' @ str_int i @ ''. Available slides: 0-'' @ str_int (int n - 1))
        = (''Invalid slide index: '' @ str_int i @ ''. Available slides: '') @ (''0-'' @ str_int (int n - 1)) @ []"
    by simp
  then show ?thesis unfolding names_range_def using contains_text_append by metis
qed

text \<open>
  Claim C4. For a slide index outside \<open>[0, len(slides) - 1]\<close> of the targeted presentation,
  each of \<open>get_slide_info\<close>, \<open>populate_placeholder\<close>, \<open>add_bullet_points\<close>,
  \<open>manage_text\<close> and \<open>manage_image\<close> returns an error whose message names the range
  \<open>0-(len(slides) - 1)\<close>, and the state (registry, files, log of delegated calls) is the one
  the call started from.
\<close>

theorem bad_slide_index_rejected:
  assumes "resolve_presentation st presentation_id = Some (pid, pres)"
    and "slide_index < 0 \<or> int (length (slides pres)) \<le> slide_index"
    and "msg = ''Invalid slide index: '' @ str_int slide_index @ ''. Available slides: 0-''
                 @ str_int (int (length (slides pres)) - 1)"
  shows "get_slide_info D st slide_index presentation_id = (Inr (PDict [(''error'', PStr msg)]), st)
       \<and> populate_placeholder D st slide_index placeholder_idx text presentation_id
           = (Inr (PDict [(''error'', PStr msg)]), st)
       \<and> add_bullet_points D st slide_index placeholder_idx bullet_points presentation_id
           = (Inr (PDict [(''error'', PStr msg)]), st)
       \<and> manage_text D st slide_index operation ta presentation_id = (Inr (PDict [(''error'', PStr msg)]), st)
       \<and> manage_image D st slide_index image_operation image_source source_type ia presentation_id
           = (Inr (PDict [(''error'', PStr msg)]), st)
       \<and> names_range msg (length (slides pres))"
proof -
  have b: "bad_slide_index slide_index pres" using assms(2) by (auto simp: bad_slide_index_def)
  have m: "invalid_slide_index slide_index pres = PDict [(''error'', PStr msg)]"
    by (simp add: invalid_slide_index_def error_dict_def assms(3))
  have n: "names_range msg (length (slides pres))"
    unfolding assms(3) by (rule invalid_slide_index_names_range)
  show ?thesis
    using assms(1) b m n
    by (simp add: get_slide_info_def populate_placeholder_def add_bullet_points_def manage_text_def
          manage_image_def)
qed

theorem bad_slide_index_rejected_witness:
  "get_slide_info sample_collab sample_state 5 None
     = (Inr (PDict [(''error'', PStr ''Invalid slide index: 5. Available slides: 0-0'')]), sample_state)
   \<and> manage_image sample_collab sample_state (- 1) ''add'' ''a.png'' ''file'' sample_image_args (Some ''deck'')
     = (Inr (PDict [(''error'', PStr ''Invalid slide index: -1. Available slides: 0-0'')]), sample_state)"
proof -
  have r: "resolve_presentation sample_state None = Some (''deck'', sample_pres)"
    by (simp add: resolve_presentation_def sample_state_def)
  have r2: "resolve_presentation sample_state (Some ''deck'') = Some (''deck'', sample_pres)"
    by (simp add: resolve_presentation_def sample_state_def)
  have s5: "str_int 5 = ''5''" by code_simp
  have s0: "str_int 0 = ''0''" by code_simp
  have s1: "str_int (- 1) = ''-1''" by code_simp
  have l: "length (slides sample_pres) = 1" by (simp add: sample_pres_def)
  show ?thesis
    using bad_slide_index_rejected[OF r, of 5 _ sample_collab]
          bad_slide_index_rejected[OF r2, of "- 1" _ sample_collab]
    by (simp add: l s5 s0 s1)
qed

section \<open>manage\_image: enhancement of base64 data\<close>

text \<open>
  Claim C9. \<open>manage_image\<close> with \<open>operation = "enhance"\<close> and \<open>source_type = "base64"\<close>, on a
  loaded presentation and a valid slide index, returns an error and leaves the state as it
  was: no file is looked up, written or deleted (the files and the log are unchanged) and the
  presentation is not mutated.
\<close>

theorem enhance_rejects_base64:
  assumes "resolve_presentation st presentation_id = Some (pid, pres)"
    and "0 \<le> slide_index" and "slide_index < int (length (slides pres))"
  shows "manage_image D st slide_index ''enhance'' image_source ''base64'' a presentation_id
           = (Inr (PDict [(''error'', PStr ''Enhancement operation requires file path, not base64 data'')]), st)"
proof -
  have b: "\<not> bad_slide_index slide_index pres" using assms(2,3) by (simp add: bad_slide_index_def)
  have t: "manage_image_try D slide_index ''enhance'' image_source ''base64'' a (enter st pres)
             = (enter st pres, Inr (error_dict ''Enhancement operation requires file path, not base64 data''))"
    by (simp add: manage_image_try_def)
  show ?thesis
    using assms(1) b t leave_enter[OF resolve_presentation_Some[OF assms(1)]]
    by (simp add: manage_image_def finish_def try_except_def error_dict_def)
qed

theorem enhance_rejects_base64_witness:
  "manage_image sample_collab sample_state 0 ''enhance'' ''aGVsbG8='' ''base64'' sample_image_args None
     = (Inr (PDict [(''error'', PStr ''Enhancement operation requires file path, not base64 data'')]), sample_state)
   \<and> files sample_state = Map.empty \<and> log sample_state = []"
proof -
  have r: "resolve_presentation sample_state None = Some (''deck'', sample_pres)"
    by (simp add: resolve_presentation_def sample_state_def)
  have l: "(0::int) < int (length (slides sample_pres))" by (simp add: sample_pres_def)
  show ?thesis
    using enhance_rejects_base64[OF r _ l, of sample_collab "''aGVsbG8=''" sample_image_args]
    by (simp add: sample_state_def)
qed

section \<open>add\_slide: the gradient background\<close>

lemma apply_background_few_colors:
  assumes "background_colors = None \<or> (\<exists>cs. background_colors = Some cs \<and> length cs < 2)"
  shows "apply_background D i (Some ''gradient'') background_colors gradient_direction color_scheme c = (c, None)"
  using assms unfolding apply_background_def by auto

lemma apply_background_none:
  "apply_background D i None background_colors gradient_direction color_scheme c = (c, None)"
  unfolding apply_background_def by simp

text \<open>
  Claim C8. \<open>add_slide\<close> with \<open>background_type = "gradient"\<close> and \<open>background_colors\<close> absent
  or of fewer than 2 entries applies no background: the call behaves as the same call without
  a background type, neither background operation is called (the log gains only
  \<open>add_slide\<close> and \<open>set_title\<close>, the new slide is the one these two produced), and it
  succeeds whenever the slide is added and titled without a fault.
\<close>

theorem gradient_needs_two_colors:
  assumes "background_colors = None \<or> (\<exists>cs. background_colors = Some cs \<and> length cs < 2)"
  shows "add_slide D st layout_index title (Some ''gradient'') background_colors gradient_direction
             color_scheme presentation_id
           = add_slide D st layout_index title None background_colors gradient_direction color_scheme
               presentation_id
       \<and> (resolve_presentation st presentation_id = Some (pid, pres) \<longrightarrow>
            0 \<le> layout_index \<longrightarrow> layout_index < int (length (slide_layouts pres)) \<longrightarrow>
            u_add_slide D pres layout_index = Inr (sl, layout) \<longrightarrow>
            title = None \<or> title = Some [] \<longrightarrow>
            add_slide D st layout_index title (Some ''gradient'') background_colors gradient_direction
                color_scheme presentation_id
              = (Inr (PDict [(''message'', PStr (''Added slide '' @ str_int (int (length (slides pres)))
                           @ '' with layout '' @ str_int layout_index)),
                        (''slide_index'', PInt (int (length (slides pres)))),
                        (''layout_name'', PStr (case layout of Some n \<Rightarrow> n
                           | None \<Rightarrow> ''Layout '' @ str_int layout_index))]),
                 st\<lparr>presentations := (presentations st)(pid \<mapsto> pres\<lparr>slides := slides pres @ [sl]\<rparr>),
                    log := log st @ [UtilCall ''add_slide'']\<rparr>))
       \<and> (resolve_presentation st presentation_id = Some (pid, pres) \<longrightarrow>
            0 \<le> layout_index \<longrightarrow> layout_index < int (length (slide_layouts pres)) \<longrightarrow>
            u_add_slide D pres layout_index = Inr (sl, layout) \<longrightarrow>
            title = Some t \<longrightarrow> t \<noteq> [] \<longrightarrow> u_set_title D sl t = (sl', None) \<longrightarrow>
            add_slide D st layout_index title (Some ''gradient'') background_colors gradient_direction
                color_scheme presentation_id
              = (Inr (PDict [(''message'', PStr (''Added slide '' @ str_int (int (length (slides pres)))
                           @ '' with layout '' @ str_int layout_index)),
                        (''slide_index'', PInt (int (length (slides pres)))),
                        (''layout_name'', PStr (case layout of Some n \<Rightarrow> n
                           | None \<Rightarrow> ''Layout '' @ str_int layout_index))]),
                 st\<lparr>presentations := (presentations st)(pid \<mapsto> pres\<lparr>slides := slides pres @ [sl']\<rparr>),
                    log := log st @ [UtilCall ''add_slide'', UtilCall ''set_title'']\<rparr>))"
proof -
  note bg = apply_background_few_colors[OF assms] apply_background_none
  have t: "\<And>c. add_slide_try D layout_index title (Some ''gradient'') background_colors gradient_direction
             color_scheme c
           = add_slide_try D layout_index title None background_colors gradient_direction color_scheme c"
    unfolding add_slide_try_def by (simp add: bg Let_def split: sum.splits prod.splits)
  have a: "add_slide D st layout_index title (Some ''gradient'') background_colors gradient_direction
             color_scheme presentation_id
           = add_slide D st layout_index title None background_colors gradient_direction color_scheme
               presentation_id"
    unfolding add_slide_def by (simp add: t split: option.splits prod.splits)
  have b: "resolve_presentation st presentation_id = Some (pid, pres) \<longrightarrow>
            0 \<le> layout_index \<longrightarrow> layout_index < int (length (slide_layouts pres)) \<longrightarrow>
            u_add_slide D pres layout_index = Inr (sl, layout) \<longrightarrow>
            title = None \<or> title = Some [] \<longrightarrow>
            add_slide D st layout_index title (Some ''gradient'') background_colors gradient_direction
                color_scheme presentation_id
              = (Inr (PDict [(''message'', PStr (''Added slide '' @ str_int (int (length (slides pres)))
                           @ '' with layout '' @ str_int layout_index)),
                        (''slide_index'', PInt (int (length (slides pres)))),
                        (''layout_name'', PStr (case layout of Some n \<Rightarrow> n
                           | None \<Rightarrow> ''Layout '' @ str_int layout_index))]),
                 st\<lparr>presentations := (presentations st)(pid \<mapsto> pres\<lparr>slides := slides pres @ [sl]\<rparr>),
                    log := log st @ [UtilCall ''add_slide'']\<rparr>)"
    unfolding add_slide_def add_slide_try_def
    by (auto simp: bg Let_def finish_def try_except_def raised_def leave_def enter_def logged_def)
  have c: "resolve_presentation st presentation_id = Some (pid, pres) \<longrightarrow>
            0 \<le> layout_index \<longrightarrow> layout_index < int (length (slide_layouts pres)) \<longrightarrow>
            u_add_slide D pres layout_index = Inr (sl, layout) \<longrightarrow>
            title = Some t \<longrightarrow> t \<noteq> [] \<longrightarrow> u_set_title D sl t = (sl', None) \<longrightarrow>
            add_slide D st layout_index title (Some ''gradient'') background_colors gradient_direction
                color_scheme presentation_id
              = (Inr (PDict [(''message'', PStr (''Added slide '' @ str_int (int (length (slides pres)))
                           @ '' with layout '' @ str_int layout_index)),
                        (''slide_index'', PInt (int (length (slides pres)))),
                        (''layout_name'', PStr (case layout of Some n \<Rightarrow> n
                           | None \<Rightarrow> ''Layout '' @ str_int layout_index))]),
                 st\<lparr>presentations := (presentations st)(pid \<mapsto> pres\<lparr>slides := slides pres @ [sl']\<rparr>),
                    log := log st @ [UtilCall ''add_slide'', UtilCall ''set_title'']\<rparr>)"
    unfolding add_slide_def add_slide_try_def
    by (auto simp: bg Let_def finish_def try_except_def raised_def leave_def enter_def logged_def
          on_slide_def get_slide_def put_slide_def)
  show ?thesis using a b c by blast
qed


theorem gradient_needs_two_colors_witness:
  "add_slide sample_collab sample_state 1 (Some ''Agenda'') (Some ''gradient'') (Some [[255, 0, 0]])
       ''horizontal'' ''modern_blue'' None
     = (Inr (PDict [(''message'', PStr ''Added slide 1 with layout 1''), (''slide_index'', PInt 1),
               (''layout_name'', PStr ''Title and Content'')]),
        sample_state\<lparr>presentations :=
            [''deck'' \<mapsto> sample_pres\<lparr>slides := [sample_slide, \<lparr>shapes = [], background = None\<rparr>]\<rparr>],
          log := [UtilCall ''add_slide'', UtilCall ''set_title'']\<rparr>)"
proof -
  have c: "Some [[255, 0, 0::int]] = None \<or> (\<exists>cs. Some [[255, 0, 0::int]] = Some cs \<and> length cs < 2)"
    by simp
  have r: "resolve_presentation sample_state None = Some (''deck'', sample_pres)"
    by (simp add: resolve_presentation_def sample_state_def)
  have u: "u_add_slide sample_collab sample_pres 1
             = Inr (\<lparr>shapes = [], background = None\<rparr>, Some ''Title and Content'')"
    by (simp add: sample_collab_def sample_pres_def)
  have v: "u_set_title sample_collab \<lparr>shapes = [], background = None\<rparr> ''Agenda''
             = (\<lparr>shapes = [], background = None\<rparr>, None)"
    by (simp add: sample_collab_def)
  have s1: "str_int 1 = ''1''" by code_simp
  have l: "(1::int) < int (length (slide_layouts sample_pres))" by (simp add: sample_pres_def)
  have n: "length (slides sample_pres) = 1" by (simp add: sample_pres_def)
  have "add_slide sample_collab sample_state 1 (Some ''Agenda'') (Some ''gradient'') (Some [[255, 0, 0]])
          ''horizontal'' ''modern_blue'' None
        = (Inr (PDict [(''message'', PStr ''Added slide 1 with layout 1''), (''slide_index'', PInt 1),
               (''layout_name'', PStr ''Title and Content'')]),
           sample_state\<lparr>presentations := (presentations sample_state)(''deck'' \<mapsto>
                sample_pres\<lparr>slides := slides sample_pres @ [\<lparr>shapes = [], background = None\<rparr>]\<rparr>),
             log := log sample_state @ [UtilCall ''add_slide'', UtilCall ''set_title'']\<rparr>)"
    using gradient_needs_two_colors[OF c, where D = sample_collab and st = sample_state
        and presentation_id = None and pid = "''deck''" and pres = sample_pres and layout_index = 1
        and sl = "\<lparr>shapes = [], background = None\<rparr>" and layout = "Some ''Title and Content''"
        and title = "Some ''Agenda''" and t = "''Agenda''" and sl' = "\<lparr>shapes = [], background = None\<rparr>"
        and gradient_direction = "''horizontal''" and color_scheme = "''modern_blue''",
        THEN conjunct2, THEN conjunct2]
      r u v l
    by (simp add: s1 n)
  then show ?thesis by (simp add: sample_state_def sample_pres_def)
qed

section \<open>manage\_text: format\_runs\<close>

lemma set_if_present_color:
  assumes "\<And>v r. r_color (upd v r) = r_color r"
  shows "r_color (fst (set_if_present D rd key upd s)) = r_color (fst s)"
  unfolding set_if_present_def using assms by (auto split: option.splits)

lemma format_font_invalid_color:
  assumes "map_of rd ''color'' = Some v" and "\<not> is_valid_rgb D v"
  shows "r_color (fst (format_font D rd s)) = r_color (fst s)"
  unfolding format_font_def Let_def using assms by (simp add: set_if_present_color)

lemma map_of_filter_key:
  "k \<noteq> k' \<Longrightarrow> map_of (filter (\<lambda>kv. fst kv \<noteq> k') kvs) k = map_of kvs k"
  by (induction kvs) auto

text \<open>
  Claim C10. In \<open>format_runs\<close>, when an entry has a \<open>color\<close> key whose value fails the RGB
  validation, the colour is not assigned to the run's font (the run's colour stays unset), and
  the entry recorded in \<open>formatted_runs\<close> still lists that colour under
  \<open>formatting_applied\<close>, which is every key of the entry except \<open>text\<close>.
\<close>

theorem invalid_color_reported_not_applied:
  assumes "map_of run_data ''text'' = Some t" and "map_of run_data ''color'' = Some v"
    and "\<not> is_valid_rgb D v" and "tf \<noteq> []"
  shows "(\<exists>r fault. format_run D run_data t tf = (tf @ [empty_paragraph\<lparr>p_runs := [r]\<rparr>], fault)
            \<and> r_color r = None)
       \<and> (\<forall>tf'. format_run D run_data t tf = (tf', None) \<longrightarrow>
             format_runs_loop D (run_data # rest) tf formatted_runs
               = format_runs_loop D rest tf'
                   (formatted_runs @ [PDict [(''text'', t),
                      (''formatting_applied'', PDict (filter (\<lambda>kv. fst kv \<noteq> ''text'') run_data))]]))
       \<and> map_of (filter (\<lambda>kv. fst kv \<noteq> ''text'') run_data) ''color'' = Some v"
proof -
  have a: "\<exists>r fault. format_run D run_data t tf = (tf @ [empty_paragraph\<lparr>p_runs := [r]\<rparr>], fault)
            \<and> r_color r = None"
  proof (cases t)
    case (PStr s)
    obtain r fault where f: "format_font D run_data (empty_run\<lparr>r_text := s\<rparr>, None) = (r, fault)"
      by (cases "format_font D run_data (empty_run\<lparr>r_text := s\<rparr>, None)")
    have "r_color r = None"
      using format_font_invalid_color[OF assms(2,3), of "(empty_run\<lparr>r_text := s\<rparr>, None)"] f
      by (simp add: empty_run_def)
    moreover have "format_run D run_data t tf = (tf @ [empty_paragraph\<lparr>p_runs := [r]\<rparr>], fault)"
      using f PStr assms(4) by (simp add: format_run_def)
    ultimately show ?thesis by blast
  next
    case PNone
    have "format_run D run_data t tf = (tf @ [empty_paragraph\<lparr>p_runs := [empty_run]\<rparr>], Some (text_assign D t))"
      using PNone assms(4) by (simp add: format_run_def)
    moreover have "r_color empty_run = None" by (simp add: empty_run_def)
    ultimately show ?thesis by blast
  next
    case (PBool x)
    have "format_run D run_data t tf = (tf @ [empty_paragraph\<lparr>p_runs := [empty_run]\<rparr>], Some (text_assign D t))"
      using PBool assms(4) by (simp add: format_run_def)
    moreover have "r_color empty_run = None" by (simp add: empty_run_def)
    ultimately show ?thesis by blast
  next
    case (PInt x)
    have "format_run D run_data t tf = (tf @ [empty_paragraph\<lparr>p_runs := [empty_run]\<rparr>], Some (text_assign D t))"
      using PInt assms(4) by (simp add: format_run_def)
    moreover have "r_color empty_run = None" by (simp add: empty_run_def)
    ultimately show ?thesis by blast
  next
    case (PList x)
    have "format_run D run_data t tf = (tf @ [empty_paragraph\<lparr>p_runs := [empty_run]\<rparr>], Some (text_assign D t))"
      using PList assms(4) by (simp add: format_run_def)
    moreover have "r_color empty_run = None" by (simp add: empty_run_def)
    ultimately show ?thesis by blast
  next
    case (PDict x)
    have "format_run D run_data t tf = (tf @ [empty_paragraph\<lparr>p_runs := [empty_run]\<rparr>], Some (text_assign D t))"
      using PDict assms(4) by (simp add: format_run_def)
    moreover have "r_color empty_run = None" by (simp add: empty_run_def)
    ultimately show ?thesis by blast
  qed
  have b: "\<forall>tf'. format_run D run_data t tf = (tf', None) \<longrightarrow>
             format_runs_loop D (run_data # rest) tf formatted_runs
               = format_runs_loop D rest tf'
                   (formatted_runs @ [PDict [(''text'', t),
                      (''formatting_applied'', PDict (filter (\<lambda>kv. fst kv \<noteq> ''text'') run_data))]])"
    using assms(1) by (simp add: formatted_entry_def)
  have c: "map_of (filter (\<lambda>kv. fst kv \<noteq> ''text'') run_data) ''color'' = Some v"
    using assms(2) by (simp add: map_of_filter_key)
  show ?thesis using a b c by blast
qed

theorem invalid_color_reported_not_applied_witness:
  "map_of (filter (\<lambda>kv. fst kv \<noteq> ''text'')
       [(''text'', PStr ''Hi''), (''bold'', PBool True), (''color'', PList [PInt 300, PInt 0, PInt 0])])
     ''color'' = Some (PList [PInt 300, PInt 0, PInt 0])
   \<and> fst (manage_text sample_collab sample_state 0 ''format_runs'' bad_color_args None)
       = Inr (PDict [(''message'', PStr ''Applied formatting to 1 text runs on shape 1''),
                (''slide_index'', PInt 0), (''shape_index'', PInt 1),
                (''formatted_runs'', PList [PDict [(''text'', PStr ''Hi''),
                   (''formatting_applied'', PDict [(''bold'', PBool True),
                      (''color'', PList [PInt 300, PInt 0, PInt 0])])]])])
   \<and> shape_paragraphs (snd (manage_text sample_collab sample_state 0 ''format_runs'' bad_color_args None))
         ''deck'' 0 1
       = Some [empty_paragraph,
               empty_paragraph\<lparr>p_runs := [empty_run\<lparr>r_text := ''Hi'', r_bold := Some (PBool True)\<rparr>]\<rparr>]"
proof -
  have t: "map_of [(''text'', PStr ''Hi''), (''bold'', PBool True), (''color'', PList [PInt 300, PInt 0, PInt 0])]
             ''text'' = Some (PStr ''Hi'')" by simp
  have c: "map_of [(''text'', PStr ''Hi''), (''bold'', PBool True), (''color'', PList [PInt 300, PInt 0, PInt 0])]
             ''color'' = Some (PList [PInt 300, PInt 0, PInt 0])" by simp
  have v: "\<not> is_valid_rgb sample_collab (PList [PInt 300, PInt 0, PInt 0])"
    by (simp add: sample_collab_def sample_valid_rgb_def)
  have n: "[empty_paragraph] \<noteq> []" by simp
  have a: "map_of (filter (\<lambda>kv. fst kv \<noteq> ''text'')
       [(''text'', PStr ''Hi''), (''bold'', PBool True), (''color'', PList [PInt 300, PInt 0, PInt 0])])
     ''color'' = Some (PList [PInt 300, PInt 0, PInt 0])"
    using invalid_color_reported_not_applied[OF t c v n] by blast
  have b: "fst (manage_text sample_collab sample_state 0 ''format_runs'' bad_color_args None)
       = Inr (PDict [(''message'', PStr ''Applied formatting to 1 text runs on shape 1''),
                (''slide_index'', PInt 0), (''shape_index'', PInt 1),
                (''formatted_runs'', PList [PDict [(''text'', PStr ''Hi''),
                   (''formatting_applied'', PDict [(''bold'', PBool True),
                      (''color'', PList [PInt 300, PInt 0, PInt 0])])]])])"
    by code_simp
  have d: "shape_paragraphs (snd (manage_text sample_collab sample_state 0 ''format_runs'' bad_color_args None))
         ''deck'' 0 1
       = Some [empty_paragraph,
               empty_paragraph\<lparr>p_runs := [empty_run\<lparr>r_text := ''Hi'', r_bold := Some (PBool True)\<rparr>]\<rparr>]"
    by code_simp
  show ?thesis using a b d by blast
qed

lemma format_run_length:
  "tf \<noteq> [] \<Longrightarrow> length (fst (format_run D run_data t tf)) = Suc (length tf)"
  unfolding format_run_def by (auto split: pyval.splits prod.splits)

lemma format_runs_loop_paragraphs:
  "tf \<noteq> [] \<Longrightarrow> format_runs_loop D text_runs tf acc = (tf', Inr formatted_runs) \<Longrightarrow>
   length tf' = length tf + length (filter (\<lambda>rd. map_of rd ''text'' \<noteq> None) text_runs)
   \<and> length formatted_runs = length acc + length (filter (\<lambda>rd. map_of rd ''text'' \<noteq> None) text_runs)"
proof (induction text_runs arbitrary: tf acc)
  case Nil
  then show ?case by simp
next
  case (Cons rd rest)
  show ?case
  proof (cases "map_of rd ''text''")
    case None
    then show ?thesis using Cons by simp
  next
    case (Some t)
    obtain tf1 fault where f: "format_run D rd t tf = (tf1, fault)" by (cases "format_run D rd t tf")
    have l: "length tf1 = Suc (length tf)" using format_run_length[OF Cons.prems(1), of D rd t] f by simp
    then have ne: "tf1 \<noteq> []" by auto
    show ?thesis
    proof (cases fault)
      case None
      have "format_runs_loop D rest tf1 (acc @ [formatted_entry rd t]) = (tf', Inr formatted_runs)"
        using Cons.prems(2) Some f None by simp
      from Cons.IH[OF ne this] show ?thesis using Some l by simp
    next
      case (Some e)
      then show ?thesis using Cons.prems(2) \<open>map_of rd ''text'' = Some t\<close> f by simp
    qed
  qed
qed

text \<open>
  Claim C2. An entry of \<open>text_runs\<close> without a \<open>text\<close> key is skipped and adds no paragraph,
  and a run carries only the attributes its entry supplies; but the frame does not end with
  exactly N paragraphs for N entries that have a text. \<open>text_frame.clear()\<close> leaves one empty
  paragraph, so the test \<open>if not text_frame.paragraphs\<close> is never true and every run is put into
  a newly added paragraph: by \<open>format_runs_loop_paragraphs\<close> the frame ends with N + 1
  paragraphs, the first one empty. Evaluated here for one entry with a text (two paragraphs)
  and for three entries of which two have a text (three paragraphs, two runs).
\<close>

theorem format_runs_leaves_empty_first_paragraph:
  "fst (manage_text sample_collab sample_state 0 ''format_runs'' one_run_args None)
     = Inr (PDict [(''message'', PStr ''Applied formatting to 1 text runs on shape 1''),
              (''slide_index'', PInt 0), (''shape_index'', PInt 1),
              (''formatted_runs'', PList [PDict [(''text'', PStr ''Hello''),
                 (''formatting_applied'', PDict [])]])])
   \<and> shape_paragraphs (snd (manage_text sample_collab sample_state 0 ''format_runs'' one_run_args None))
         ''deck'' 0 1
       = Some [empty_paragraph, empty_paragraph\<lparr>p_runs := [empty_run\<lparr>r_text := ''Hello''\<rparr>]\<rparr>]
   \<and> map_option length
         (shape_paragraphs (snd (manage_text sample_collab sample_state 0 ''format_runs'' one_run_args None))
            ''deck'' 0 1) = Some 2
   \<and> shape_paragraphs (snd (manage_text sample_collab sample_state 0 ''format_runs'' three_entry_args None))
         ''deck'' 0 0
       = Some [empty_paragraph,
               empty_paragraph\<lparr>p_runs := [empty_run\<lparr>r_text := ''A'', r_bold := Some (PBool True)\<rparr>]\<rparr>,
               empty_paragraph\<lparr>p_runs := [empty_run\<lparr>r_text := ''B''\<rparr>]\<rparr>]"
  by code_simp

section \<open>Exceptions of delegated operations\<close>







section \<open>Which index arguments are checked\<close>

text \<open>
  Claim C3, as stated, fails for the placeholder index. On a slide whose placeholders have the
  indices 0 and 1 (three shapes), \<open>add_bullet_points\<close> with \<open>placeholder_idx = 7\<close> answers
  with the message of the \<open>KeyError\<close> of the lookup, which names no range, and
  \<open>populate_placeholder\<close> calls the delegated operation without any check of its own.
\<close>

theorem placeholder_index_not_range_checked:
  "find_placeholder (shapes sample_slide) 7 = None
   \<and> fst (add_bullet_points sample_collab sample_state 0 7 [''a'', ''b''] None)
       = Inr (PDict [(''error'', PStr (''Failed to add bullet points: ''
                   @ repr_str ''no placeholder on this slide with idx == 7''))])
   \<and> \<not> names_range (''Failed to add bullet points: ''
                   @ repr_str ''no placeholder on this slide with idx == 7'') 2
   \<and> \<not> names_range (''Failed to add bullet points: ''
                   @ repr_str ''no placeholder on this slide with idx == 7'') 3
   \<and> log (snd (populate_placeholder sample_collab sample_state 0 7 ''x'' None))
       = [UtilCall ''populate_placeholder'']"
  by code_simp

text \<open>
  Claim C3, amended. Every tool checks the slide index it receives and \<open>add_slide\<close> its
  layout index against the length of the live collection before any delegated call or
  mutation. \<open>manage_text\<close> (\<open>format\<close>, \<open>validate\<close>, \<open>format_runs\<close>) checks its shape index
  after the validation of \<open>font_size\<close>, \<open>color\<close> and \<open>bg_color\<close>: when that validation
  fails its error is returned, whatever the shape index; when it passes or has nothing to
  validate, the shape index is checked before any delegated call or mutation. Each of these
  checks answers an out-of-range index with an error naming the range \<open>0-(len - 1)\<close>, the
  state unchanged. The placeholder index is not range-checked: \<open>populate_placeholder\<close>
  always calls the delegated operation with it and reports what that operation does;
  \<open>add_bullet_points\<close> looks it up among the placeholders of the slide inside its \<open>try\<close>
  block, and an index that no placeholder has gives
  \<open>Failed to add bullet points: 'no placeholder on this slide with idx == <idx>'\<close>, the state
  unchanged.
\<close>

theorem checked_and_unchecked_indices:
  "(resolve_presentation st presentation_id = Some (pid, pres) \<longrightarrow>
      layout_index < 0 \<or> int (length (slide_layouts pres)) \<le> layout_index \<longrightarrow>
      add_slide D st layout_index title background_type background_colors gradient_direction color_scheme
          presentation_id
        = (Inr (PDict [(''error'', PStr (''Invalid layout index: '' @ str_int layout_index
                     @ ''. Available layouts: 0-'' @ str_int (int (length (slide_layouts pres)) - 1)))]), st))
   \<and> (resolve_presentation st presentation_id = Some (pid, pres) \<longrightarrow>
      slide_index < 0 \<or> int (length (slides pres)) \<le> slide_index \<longrightarrow>
      get_slide_info D st slide_index presentation_id
        = (Inr (PDict [(''error'', PStr (''Invalid slide index: '' @ str_int slide_index
                     @ ''. Available slides: 0-'' @ str_int (int (length (slides pres)) - 1)))]), st)
      \<and> populate_placeholder D st slide_index placeholder_idx text presentation_id
        = (Inr (PDict [(''error'', PStr (''Invalid slide index: '' @ str_int slide_index
                     @ ''. Available slides: 0-'' @ str_int (int (length (slides pres)) - 1)))]), st)
      \<and> add_bullet_points D st slide_index placeholder_idx bullet_points presentation_id
        = (Inr (PDict [(''error'', PStr (''Invalid slide index: '' @ str_int slide_index
                     @ ''. Available slides: 0-'' @ str_int (int (length (slides pres)) - 1)))]), st)
      \<and> manage_text D st slide_index operation ta presentation_id
        = (Inr (PDict [(''error'', PStr (''Invalid slide index: '' @ str_int slide_index
                     @ ''. Available slides: 0-'' @ str_int (int (length (slides pres)) - 1)))]), st)
      \<and> manage_image D st slide_index operation image_source source_type ia presentation_id
        = (Inr (PDict [(''error'', PStr (''Invalid slide index: '' @ str_int slide_index
                     @ ''. Available slides: 0-'' @ str_int (int (length (slides pres)) - 1)))]), st))
   \<and> (resolve_presentation st presentation_id = Some (pid, pres) \<longrightarrow>
      0 \<le> slide_index \<longrightarrow> slide_index < int (length (slides pres)) \<longrightarrow>
      text_validations D (t_format ta) \<noteq> [] \<longrightarrow>
      \<not> fst (validate_parameters D (text_validations D (t_format ta))) \<longrightarrow>
      manage_text D st slide_index operation ta presentation_id
        = (Inr (PDict [(''error'', PStr (snd (validate_parameters D (text_validations D (t_format ta)))))]), st))
   \<and> (resolve_presentation st presentation_id = Some (pid, pres) \<longrightarrow>
      0 \<le> slide_index \<longrightarrow> slide_index < int (length (slides pres)) \<longrightarrow>
      text_validations D (t_format ta) = [] \<or> fst (validate_parameters D (text_validations D (t_format ta))) \<longrightarrow>
      bad_shape_index (t_shape_index ta) (slides pres ! nat slide_index) \<longrightarrow>
      manage_text D st slide_index ''format'' ta presentation_id
        = (Inr (PDict [(''error'', PStr (''Invalid shape index for formatting: '' @ str_opt_int (t_shape_index ta)
                     @ ''. Available shapes: 0-''
                     @ str_int (int (length (shapes (slides pres ! nat slide_index))) - 1)))]), st)
      \<and> manage_text D st slide_index ''validate'' ta presentation_id
        = (Inr (PDict [(''error'', PStr (''Invalid shape index for validation: '' @ str_opt_int (t_shape_index ta)
                     @ ''. Available shapes: 0-''
                     @ str_int (int (length (shapes (slides pres ! nat slide_index))) - 1)))]), st)
      \<and> manage_text D st slide_index ''format_runs'' ta presentation_id
        = (Inr (PDict [(''error'', PStr (''Invalid shape index for format_runs: '' @ str_opt_int (t_shape_index ta)
                     @ ''. Available shapes: 0-''
                     @ str_int (int (length (shapes (slides pres ! nat slide_index))) - 1)))]), st))
   \<and> (resolve_presentation st presentation_id = Some (pid, pres) \<longrightarrow>
      0 \<le> slide_index \<longrightarrow> slide_index < int (length (slides pres)) \<longrightarrow>
      log (snd (populate_placeholder D st slide_index placeholder_idx text presentation_id))
        = log st @ [UtilCall ''populate_placeholder'']
      \<and> fst (populate_placeholder D st slide_index placeholder_idx text presentation_id)
        = (case snd (u_populate_placeholder D (slides pres ! nat slide_index) placeholder_idx text) of
             Some e \<Rightarrow> Inr (PDict [(''error'', PStr (''Failed to populate placeholder: '' @ str_exn e))])
           | None \<Rightarrow> Inr (PDict [(''message'', PStr (''Populated placeholder '' @ str_int placeholder_idx
                                @ '' on slide '' @ str_int slide_index))])))
   \<and> (resolve_presentation st presentation_id = Some (pid, pres) \<longrightarrow>
      0 \<le> slide_index \<longrightarrow> slide_index < int (length (slides pres)) \<longrightarrow>
      find_placeholder (shapes (slides pres ! nat slide_index)) placeholder_idx = None \<longrightarrow>
      add_bullet_points D st slide_index placeholder_idx bullet_points presentation_id
        = (Inr (PDict [(''error'', PStr (''Failed to add bullet points: ''
                     @ repr_str (''no placeholder on this slide with idx == '' @ str_int placeholder_idx)))]),
           st))"
proof -
  have c1: "resolve_presentation st presentation_id = Some (pid, pres) \<longrightarrow>
      layout_index < 0 \<or> int (length (slide_layouts pres)) \<le> layout_index \<longrightarrow>
      add_slide D st layout_index title background_type background_colors gradient_direction color_scheme
          presentation_id
        = (Inr (PDict [(''error'', PStr (''Invalid layout index: '' @ str_int layout_index
                     @ ''. Available layouts: 0-'' @ str_int (int (length (slide_layouts pres)) - 1)))]), st)"
    by (auto simp: add_slide_def error_dict_def)
  have c2: "resolve_presentation st presentation_id = Some (pid, pres) \<longrightarrow>
      slide_index < 0 \<or> int (length (slides pres)) \<le> slide_index \<longrightarrow>
      get_slide_info D st slide_index presentation_id
        = (Inr (PDict [(''error'', PStr (''Invalid slide index: '' @ str_int slide_index
                     @ ''. Available slides: 0-'' @ str_int (int (length (slides pres)) - 1)))]), st)
      \<and> populate_placeholder D st slide_index placeholder_idx text presentation_id
        = (Inr (PDict [(''error'', PStr (''Invalid slide index: '' @ str_int slide_index
                     @ ''. Available slides: 0-'' @ str_int (int (length (slides pres)) - 1)))]), st)
      \<and> add_bullet_points D st slide_index placeholder_idx bullet_points presentation_id
        = (Inr (PDict [(''error'', PStr (''Invalid slide index: '' @ str_int slide_index
                     @ ''. Available slides: 0-'' @ str_int (int (length (slides pres)) - 1)))]), st)
      \<and> manage_text D st slide_index operation ta presentation_id
        = (Inr (PDict [(''error'', PStr (''Invalid slide index: '' @ str_int slide_index
                     @ ''. Available slides: 0-'' @ str_int (int (length (slides pres)) - 1)))]), st)
      \<and> manage_image D st slide_index operation image_source source_type ia presentation_id
        = (Inr (PDict [(''error'', PStr (''Invalid slide index: '' @ str_int slide_index
                     @ ''. Available slides: 0-'' @ str_int (int (length (slides pres)) - 1)))]), st)"
    by (auto simp: get_slide_info_def populate_placeholder_def add_bullet_points_def manage_text_def manage_image_def bad_slide_index_def
          invalid_slide_index_def error_dict_def)
  have c3: "resolve_presentation st presentation_id = Some (pid, pres) \<longrightarrow>
      0 \<le> slide_index \<longrightarrow> slide_index < int (length (slides pres)) \<longrightarrow>
      text_validations D (t_format ta) \<noteq> [] \<longrightarrow>
      \<not> fst (validate_parameters D (text_validations D (t_format ta))) \<longrightarrow>
      manage_text D st slide_index operation ta presentation_id
        = (Inr (PDict [(''error'', PStr (snd (validate_parameters D (text_validations D (t_format ta)))))]), st)"
    by (auto simp: manage_text_def bad_slide_index_def error_dict_def)
  have c4: "resolve_presentation st presentation_id = Some (pid, pres) \<longrightarrow>
      0 \<le> slide_index \<longrightarrow> slide_index < int (length (slides pres)) \<longrightarrow>
      text_validations D (t_format ta) = [] \<or> fst (validate_parameters D (text_validations D (t_format ta))) \<longrightarrow>
      bad_shape_index (t_shape_index ta) (slides pres ! nat slide_index) \<longrightarrow>
      manage_text D st slide_index ''format'' ta presentation_id
        = (Inr (PDict [(''error'', PStr (''Invalid shape index for formatting: '' @ str_opt_int (t_shape_index ta)
                     @ ''. Available shapes: 0-''
                     @ str_int (int (length (shapes (slides pres ! nat slide_index))) - 1)))]), st)
      \<and> manage_text D st slide_index ''validate'' ta presentation_id
        = (Inr (PDict [(''error'', PStr (''Invalid shape index for validation: '' @ str_opt_int (t_shape_index ta)
                     @ ''. Available shapes: 0-''
                     @ str_int (int (length (shapes (slides pres ! nat slide_index))) - 1)))]), st)
      \<and> manage_text D st slide_index ''format_runs'' ta presentation_id
        = (Inr (PDict [(''error'', PStr (''Invalid shape index for format_runs: '' @ str_opt_int (t_shape_index ta)
                     @ ''. Available shapes: 0-''
                     @ str_int (int (length (shapes (slides pres ! nat slide_index))) - 1)))]), st)"
    proof (intro impI)
    assume r: "resolve_presentation st presentation_id = Some (pid, pres)"
      and s: "0 \<le> slide_index" "slide_index < int (length (slides pres))"
      and v: "text_validations D (t_format ta) = [] \<or> fst (validate_parameters D (text_validations D (t_format ta)))"
      and b: "bad_shape_index (t_shape_index ta) (slides pres ! nat slide_index)"
    have g: "get_slide (enter st pres) (nat slide_index) = slides pres ! nat slide_index"
      by (simp add: get_slide_def enter_def)
    have t: "manage_text_try D slide_index ''format'' ta (enter st pres)
               = (enter st pres, Inr (invalid_shape_index ''formatting'' (t_shape_index ta)
                    (slides pres ! nat slide_index)))"
        "manage_text_try D slide_index ''validate'' ta (enter st pres)
               = (enter st pres, Inr (invalid_shape_index ''validation'' (t_shape_index ta)
                    (slides pres ! nat slide_index)))"
        "manage_text_try D slide_index ''format_runs'' ta (enter st pres)
               = (enter st pres, Inr (invalid_shape_index ''format_runs'' (t_shape_index ta)
                    (slides pres ! nat slide_index)))"
      using b by (simp_all add: manage_text_try_def validate_text_def format_runs_def g Let_def)
    have nb: "\<not> bad_slide_index slide_index pres" using s by (simp add: bad_slide_index_def)
    note le = leave_enter[OF resolve_presentation_Some[OF r]]
    show "manage_text D st slide_index ''format'' ta presentation_id
        = (Inr (PDict [(''error'', PStr (''Invalid shape index for formatting: '' @ str_opt_int (t_shape_index ta)
                     @ ''. Available shapes: 0-''
                     @ str_int (int (length (shapes (slides pres ! nat slide_index))) - 1)))]), st)
      \<and> manage_text D st slide_index ''validate'' ta presentation_id
        = (Inr (PDict [(''error'', PStr (''Invalid shape index for validation: '' @ str_opt_int (t_shape_index ta)
                     @ ''. Available shapes: 0-''
                     @ str_int (int (length (shapes (slides pres ! nat slide_index))) - 1)))]), st)
      \<and> manage_text D st slide_index ''format_runs'' ta presentation_id
        = (Inr (PDict [(''error'', PStr (''Invalid shape index for format_runs: '' @ str_opt_int (t_shape_index ta)
                     @ ''. Available shapes: 0-''
                     @ str_int (int (length (shapes (slides pres ! nat slide_index))) - 1)))]), st)"
      using r nb v t le
      by (auto simp: manage_text_def finish_def try_except_def invalid_shape_index_def error_dict_def)
  qed
  have c5: "resolve_presentation st presentation_id = Some (pid, pres) \<longrightarrow>
      0 \<le> slide_index \<longrightarrow> slide_index < int (length (slides pres)) \<longrightarrow>
      log (snd (populate_placeholder D st slide_index placeholder_idx text presentation_id))
        = log st @ [UtilCall ''populate_placeholder'']
      \<and> fst (populate_placeholder D st slide_index placeholder_idx text presentation_id)
        = (case snd (u_populate_placeholder D (slides pres ! nat slide_index) placeholder_idx text) of
             Some e \<Rightarrow> Inr (PDict [(''error'', PStr (''Failed to populate placeholder: '' @ str_exn e))])
           | None \<Rightarrow> Inr (PDict [(''message'', PStr (''Populated placeholder '' @ str_int placeholder_idx
                                @ '' on slide '' @ str_int slide_index))]))"
    by (auto simp: populate_placeholder_def bad_slide_index_def finish_def try_except_def
          error_dict_def populate_placeholder_try_def raised_def on_slide_def get_slide_def enter_def
          leave_def put_slide_def logged_def split: prod.splits option.splits)
  have c6: "resolve_presentation st presentation_id = Some (pid, pres) \<longrightarrow>
      0 \<le> slide_index \<longrightarrow> slide_index < int (length (slides pres)) \<longrightarrow>
      find_placeholder (shapes (slides pres ! nat slide_index)) placeholder_idx = None \<longrightarrow>
      add_bullet_points D st slide_index placeholder_idx bullet_points presentation_id
        = (Inr (PDict [(''error'', PStr (''Failed to add bullet points: ''
                     @ repr_str (''no placeholder on this slide with idx == '' @ str_int placeholder_idx)))]),
           st)"
    proof (intro impI)
    assume r: "resolve_presentation st presentation_id = Some (pid, pres)"
      and s: "0 \<le> slide_index" "slide_index < int (length (slides pres))"
      and f: "find_placeholder (shapes (slides pres ! nat slide_index)) placeholder_idx = None"
    have t: "add_bullet_points_try D slide_index placeholder_idx bullet_points (enter st pres)
               = (enter st pres, Inl (KeyError (repr_str (''no placeholder on this slide with idx == ''
                    @ str_int placeholder_idx))))"
      using f by (simp add: add_bullet_points_try_def placeholders_getitem_def get_slide_def enter_def)
    have nb: "\<not> bad_slide_index slide_index pres" using s by (simp add: bad_slide_index_def)
    show "add_bullet_points D st slide_index placeholder_idx bullet_points presentation_id
        = (Inr (PDict [(''error'', PStr (''Failed to add bullet points: ''
                     @ repr_str (''no placeholder on this slide with idx == '' @ str_int placeholder_idx)))]),
           st)"
      using r nb t leave_enter[OF resolve_presentation_Some[OF r]]
      by (simp add: add_bullet_points_def finish_def try_except_def error_dict_def)
  qed
  show ?thesis
    using c1 c2 c3 c4 c5 c6
    by blast
qed



theorem checked_and_unchecked_indices_witness:
  "add_slide sample_collab sample_state 5 None None None ''horizontal'' ''modern_blue'' None
     = (Inr (PDict [(''error'', PStr ''Invalid layout index: 5. Available layouts: 0-1'')]), sample_state)
   \<and> manage_text sample_collab sample_state 0 ''format'' far_shape_args None
     = (Inr (PDict [(''error'', PStr ''Invalid shape index for formatting: 9. Available shapes: 0-2'')]),
        sample_state)
   \<and> manage_text sample_collab sample_state 0 ''format'' bad_font_args None
     = (Inr (PDict [(''error'', PStr ''Parameter validation failed'')]), sample_state)
   \<and> add_bullet_points sample_collab sample_state 0 7 [''a'', ''b''] None
     = (Inr (PDict [(''error'', PStr (''Failed to add bullet points: ''
                  @ repr_str ''no placeholder on this slide with idx == 7''))]), sample_state)"
proof -
  note T = checked_and_unchecked_indices[where D = sample_collab and st = sample_state
      and presentation_id = None and pid = "''deck''" and pres = sample_pres and slide_index = 0
      and layout_index = 5 and placeholder_idx = 7]
  have r: "resolve_presentation sample_state None = Some (''deck'', sample_pres)"
    by (simp add: resolve_presentation_def sample_state_def)
  have z: "(0::int) \<le> 0" by simp
  have l: "(0::int) < int (length (slides sample_pres))" by (simp add: sample_pres_def)
  have y: "(5::int) < 0 \<or> int (length (slide_layouts sample_pres)) \<le> 5" by (simp add: sample_pres_def)
  have v: "text_validations sample_collab (t_format far_shape_args) = []
           \<or> fst (validate_parameters sample_collab (text_validations sample_collab (t_format far_shape_args)))"
    by (simp add: text_validations_def far_shape_args_def sample_text_args_def)
  have b: "bad_shape_index (t_shape_index far_shape_args) (slides sample_pres ! nat 0)"
    by (simp add: bad_shape_index_def far_shape_args_def sample_pres_def sample_slide_def)
  have w1: "text_validations sample_collab (t_format bad_font_args) \<noteq> []"
    by (simp add: text_validations_def bad_font_args_def far_shape_args_def sample_text_args_def)
  have w2: "\<not> fst (validate_parameters sample_collab (text_validations sample_collab (t_format bad_font_args)))"
    by (simp add: text_validations_def bad_font_args_def far_shape_args_def sample_text_args_def
          sample_collab_def)
  have w3: "snd (validate_parameters sample_collab (text_validations sample_collab (t_format bad_font_args)))
              = ''Parameter validation failed''"
    by (simp add: text_validations_def bad_font_args_def far_shape_args_def sample_text_args_def
          sample_collab_def)
  have f: "find_placeholder (shapes (slides sample_pres ! nat 0)) 7 = None"
    by (simp add: sample_pres_def sample_slide_def title_shape_def body_shape_def picture_shape_def)
  have s5: "str_int 5 = ''5''" and s1: "str_int 1 = ''1''" and s2: "str_int 2 = ''2''"
    and s7: "str_int 7 = ''7''" and s9: "str_opt_int (Some 9) = ''9''"
    by code_simp+
  have n1: "int (length (slide_layouts sample_pres)) - 1 = 1" by (simp add: sample_pres_def)
  have n2: "int (length (shapes (slides sample_pres ! 0))) - 1 = 2"
    by (simp add: sample_pres_def sample_slide_def)
  have a1: "add_slide sample_collab sample_state 5 None None None ''horizontal'' ''modern_blue'' None
     = (Inr (PDict [(''error'', PStr (''Invalid layout index: '' @ str_int 5
                     @ ''. Available layouts: 0-'' @ str_int (int (length (slide_layouts sample_pres)) - 1)))]),
        sample_state)"
    using T[where title = None and background_type = None and background_colors = None
        and gradient_direction = "''horizontal''" and color_scheme = "''modern_blue''"] r y by blast
  have a2: "manage_text sample_collab sample_state 0 ''format'' far_shape_args None
        = (Inr (PDict [(''error'', PStr (''Invalid shape index for formatting: ''
                     @ str_opt_int (t_shape_index far_shape_args)
                     @ ''. Available shapes: 0-''
                     @ str_int (int (length (shapes (slides sample_pres ! nat 0))) - 1)))]), sample_state)"
    using T[where ta = far_shape_args] r z l v b by blast
  have a3: "manage_text sample_collab sample_state 0 ''format'' bad_font_args None
        = (Inr (PDict [(''error'', PStr (snd (validate_parameters sample_collab
               (text_validations sample_collab (t_format bad_font_args)))))]), sample_state)"
    using T[where ta = bad_font_args and operation = "''format''"] r z l w1 w2 by blast
  have a4: "add_bullet_points sample_collab sample_state 0 7 [''a'', ''b''] None
        = (Inr (PDict [(''error'', PStr (''Failed to add bullet points: ''
                     @ repr_str (''no placeholder on this slide with idx == '' @ str_int 7)))]),
           sample_state)"
    using T[where bullet_points = "[''a'', ''b'']"] r z l f by blast
  have t9: "t_shape_index far_shape_args = Some 9" by (simp add: far_shape_args_def)
  show ?thesis
    using a1 a2 a3 a4 by (simp add: n1 n2 s5 s1 s2 s7 s9 t9 w3)
qed

end
